theory Spec2Isabelle
  imports Main "HOL-Library.Word"
begin

section \<open>YCP values, the callback registry and the shared state\<close>

text \<open>
  The bridge of \<^verbatim>\<open>Callbacks.cc\<close> turns the push callbacks of the package engine into
  synchronous calls of handlers registered by the host application. A handler is a YCP
  function: it receives the argument tuple collected with \<^verbatim>\<open>addStr\<close>, \<^verbatim>\<open>addInt\<close>,
  \<^verbatim>\<open>addBool\<close> and returns a YCP value.
\<close>

datatype YCPValue =
    YCPVoid
  | YCPError string
  | YCPBoolean bool
  | YCPInteger int
  | YCPString string
  | YCPSymbol string
  | YCPList "YCPValue list"
  | YCPMap "(string \<times> YCPValue) list"

datatype CBid =
    CB_SourceChange
  | CB_StartPackage | CB_ProgressPackage | CB_DonePackage
  | CB_StartProvide | CB_ProgressProvide | CB_DoneProvide
  | CB_StartDownload | CB_ProgressDownload | CB_DoneDownload
  | CB_ScriptProblem
  | CB_MediaChange
  | CB_SourceCreateError
  | CB_SourceProbeStart | CB_SourceProbeEnd

type_synonym handler = "YCPValue list \<Rightarrow> YCPValue"

type_synonym YCPCallbacks = "CBid \<Rightarrow> handler option"

text \<open>\<^verbatim>\<open>enum MediaChangeSensitivity\<close>, the type of the global \<^verbatim>\<open>_silent_probing\<close>.\<close>

datatype MediaChangeSensitivity =
  MEDIA_CHANGE_FULL | MEDIA_CHANGE_DISABLE | MEDIA_CHANGE_OPTIONALFILE

text \<open>
  \<^verbatim>\<open>zypp::Url\<close> is a type of the engine; a URL is kept here as its \<^verbatim>\<open>asString()\<close> form.
  \<^verbatim>\<open>typedef std::map<unsigned, zypp::Url> MediaMap\<close> and
  \<^verbatim>\<open>typedef std::map<zypp::Url, MediaMap> RedirectMap\<close>.
\<close>

type_synonym Url = string
type_synonym MediaMap = "32 word \<rightharpoonup> Url"
type_synonym RedirectMap = "Url \<rightharpoonup> MediaMap"

datatype loglevel = y2debug | y2milestone | y2warning | y2error

text \<open>
  The process-wide state the receivers share: the registry of handlers, the two globals
  \<^verbatim>\<open>_silent_probing\<close> and \<^verbatim>\<open>redirect_map\<close>, and two observation traces: the handler
  invocations made so far (callback and argument tuple, oldest first) and the log lines
  written so far (level, format string, arguments).
\<close>

record world =
  ycpcb :: YCPCallbacks
  silent_probing :: MediaChangeSensitivity
  redirect_map :: RedirectMap
  evaluated :: "(CBid \<times> YCPValue list) list"
  y2log :: "(loglevel \<times> string \<times> YCPValue list) list"

definition log_line :: "loglevel \<Rightarrow> string \<Rightarrow> YCPValue list \<Rightarrow> world \<Rightarrow> world" where
  "log_line lvl fmt args w = w\<lparr>y2log := y2log w @ [(lvl, fmt, args)]\<rparr>"

text \<open>\<^verbatim>\<open>callback._set\<close>: a handler is registered for the callback.\<close>

definition cb_set :: "world \<Rightarrow> CBid \<Rightarrow> bool" where
  "cb_set w cb = (ycpcb w cb \<noteq> None)"

text \<open>
  Modelled from the spec: the class \<^verbatim>\<open>CB\<close> of \<^verbatim>\<open>Callbacks.YCP.h\<close> is not part of the
  sources. An adapter looks up the registered handler and invokes it synchronously with
  the collected argument tuple; the call is recorded here. The typed variants decode the
  reply, with a default when the reply is absent or of another type (\<^verbatim>\<open>evaluateStr\<close>
  and \<^verbatim>\<open>evaluateSymbol\<close>: the empty string, \<^verbatim>\<open>evaluateBool\<close>: the given default,
  false when none is given). A handler is a function of its arguments; what it may do to
  the state by calling back into the bridge is outside the model.
\<close>

definition evaluate :: "CBid \<Rightarrow> YCPValue list \<Rightarrow> world \<Rightarrow> YCPValue \<times> world" where
  "evaluate cb args w =
     (case ycpcb w cb of
        None \<Rightarrow> (YCPVoid, w)
      | Some f \<Rightarrow> (f args, w\<lparr>evaluated := evaluated w @ [(cb, args)]\<rparr>))"

definition evaluateStr :: "CBid \<Rightarrow> YCPValue list \<Rightarrow> world \<Rightarrow> string \<times> world" where
  "evaluateStr cb args w =
     (case evaluate cb args w of
        (YCPString s, w') \<Rightarrow> (s, w')
      | (_, w') \<Rightarrow> ([], w'))"

definition evaluateSymbol :: "CBid \<Rightarrow> YCPValue list \<Rightarrow> world \<Rightarrow> string \<times> world" where
  "evaluateSymbol cb args w =
     (case evaluate cb args w of
        (YCPSymbol s, w') \<Rightarrow> (s, w')
      | (_, w') \<Rightarrow> ([], w'))"

definition evaluateBool :: "CBid \<Rightarrow> YCPValue list \<Rightarrow> bool \<Rightarrow> world \<Rightarrow> bool \<times> world" where
  "evaluateBool cb args dflt w =
     (case evaluate cb args w of
        (YCPBoolean b, w') \<Rightarrow> (b, w')
      | (_, w') \<Rightarrow> (dflt, w'))"

text \<open>The handler-invocation counter of a callback: how often it has been evaluated.\<close>

definition invocations :: "CBid \<Rightarrow> world \<Rightarrow> nat" where
  "invocations cb w = length (filter (\<lambda>e. fst e = cb) (evaluated w))"

section \<open>What the engine provides\<close>

text \<open>
  The reply enumerations of the engine's reports. \<^verbatim>\<open>Action\<close> is the one of the install,
  remove, download, script and source-create reports; the media-change report has its own.
\<close>

datatype Action = ABORT | RETRY | IGNORE

datatype MediaChangeAction =
    MediaChange_ABORT | MediaChange_RETRY | MediaChange_IGNORE
  | MediaChange_IGNORE_ID | MediaChange_CHANGE_URL | MediaChange_EJECT

datatype MediaChangeError =
  MC_NO_ERROR | MC_NOT_FOUND | MC_IO | MC_INVALID | MC_WRONG | MC_IO_SOFT

text \<open>
  The engine's own code is outside the repository, so what the receivers call in it is a
  parameter of the model: the constructor \<^verbatim>\<open>zypp::Url(string)\<close> (\<open>None\<close> when it throws),
  \<^verbatim>\<open>zypp::str::strtonum<unsigned int>\<close>, and the default implementations of the parent
  report classes that a receiver falls back to.
\<close>

record zypp_lib =
  Url_ctor :: "string \<Rightarrow> Url option"
  strtonum :: "string \<Rightarrow> 32 word"
  MediaChangeReport_requestMedia :: MediaChangeAction
  InstallResolvableReport_progress :: bool
  InstallResolvableReport_problem :: Action
  RemoveResolvableReport_problem :: Action
  DownloadResolvableReport_progress :: bool
  DownloadResolvableReport_problem :: Action
  DownloadProgressReport_progress :: bool
  DownloadProgressReport_problem :: Action
  PatchScriptReport_problem :: Action
  RepoCreateReport_problem :: Action

section \<open>MediaChangeReceive\<close>

text \<open>
  \<^verbatim>\<open>MediaChangeReceive::requestMedia\<close>. \<^verbatim>\<open>url\<close> and \<^verbatim>\<open>dev_current\<close> are reference
  parameters of the source: the function returns their final values with the action.
\<close>

definition requestMedia ::
  "zypp_lib \<Rightarrow> Url \<Rightarrow> 32 word \<Rightarrow> string \<Rightarrow> MediaChangeError \<Rightarrow> string \<Rightarrow> string list \<Rightarrow> 32 word
     \<Rightarrow> world \<Rightarrow> (MediaChangeAction \<times> Url \<times> 32 word) \<times> world" where
  "requestMedia z url mediumNr label error description devices dev_current w =
     (if silent_probing w = MEDIA_CHANGE_DISABLE then ((MediaChange_ABORT, url, dev_current), w)
      else if silent_probing w = MEDIA_CHANGE_OPTIONALFILE \<and> error = MC_NOT_FOUND
        then ((MediaChange_ABORT, url, dev_current), w)
      else if cb_set w CB_MediaChange then
        (let found = (case redirect_map w url of
                        None \<Rightarrow> None
                      | Some source \<Rightarrow> source mediumNr);
             report_url = (case found of None \<Rightarrow> url | Some u \<Rightarrow> u);
             w0 = (case found of
                     None \<Rightarrow> w
                   | Some u \<Rightarrow> log_line y2milestone ''Using redirected URL %s, original URL: %s''
                                [YCPString u, YCPString url] w);
             (ret, w1) = evaluateStr CB_MediaChange
                 [YCPString description, YCPString report_url, YCPString label, YCPInteger 0,
                  YCPString [], YCPInteger (uint mediumNr), YCPString [], YCPBoolean False] w0
         in if ret = [] then ((MediaChange_RETRY, url, dev_current), w1)
            else if ret = ''I'' then ((MediaChange_IGNORE_ID, url, dev_current), w1)
            else if ret = ''C'' then ((MediaChange_ABORT, url, dev_current), w1)
            else if ret = ''E'' then ((MediaChange_EJECT, url, dev_current), w1)
            else if length ret > 1 \<and> hd ret = CHR ''E'' then
              (let dev = strtonum z (tl ret)
               in ((MediaChange_EJECT, url, dev),
                   log_line y2milestone ''Ejecting device %d'' [YCPInteger (uint dev)] w1))
            else if ret = ''S'' then ((MediaChange_IGNORE, url, dev_current), w1)
            else
              (case Url_ctor z ret of
                 Some new_url \<Rightarrow>
                   (let source_redir =
                          (case redirect_map w1 new_url of None \<Rightarrow> Map.empty | Some m \<Rightarrow> m);
                        source_redir' = source_redir(mediumNr \<mapsto> new_url)
                    in ((MediaChange_CHANGE_URL, new_url, dev_current),
                        log_line y2milestone ''Source redirected to %s'' [YCPString ret]
                          (w1\<lparr>redirect_map := (redirect_map w1)(new_url \<mapsto> source_redir')\<rparr>)))
               | None \<Rightarrow> ((MediaChange_RETRY, url, dev_current), w1)))
      else ((MediaChangeReport_requestMedia z, url, dev_current), w))"


section \<open>ProbeSourceReceive\<close>

text \<open>\<^verbatim>\<open>ProbeSourceReceive::start\<close> and \<^verbatim>\<open>ProbeSourceReceive::finish\<close>.\<close>

datatype ProbeRepoError =
  Probe_NO_ERROR | Probe_NOT_FOUND | Probe_IO | Probe_INVALID | Probe_UNKNOWN

fun ProbeSrcErrorAsString :: "ProbeRepoError \<Rightarrow> string" where
  "ProbeSrcErrorAsString Probe_NO_ERROR = ''NO_ERROR''"
| "ProbeSrcErrorAsString Probe_NOT_FOUND = ''NOT_FOUND''"
| "ProbeSrcErrorAsString Probe_IO = ''IO''"
| "ProbeSrcErrorAsString Probe_INVALID = ''INVALID''"
| "ProbeSrcErrorAsString Probe_UNKNOWN = ''UNKNOWN''"

definition ProbeSourceReceive_start :: "Url \<Rightarrow> world \<Rightarrow> world" where
  "ProbeSourceReceive_start url w =
     (let w1 = w\<lparr>silent_probing := MEDIA_CHANGE_DISABLE\<rparr>
      in if cb_set w1 CB_SourceProbeStart
         then snd (evaluate CB_SourceProbeStart [YCPString url] w1)
         else w1)"

definition ProbeSourceReceive_finish :: "Url \<Rightarrow> ProbeRepoError \<Rightarrow> string \<Rightarrow> world \<Rightarrow> world" where
  "ProbeSourceReceive_finish url error reason w =
     (let w1 = w\<lparr>silent_probing := MEDIA_CHANGE_FULL\<rparr>
      in if cb_set w1 CB_SourceProbeEnd
         then snd (evaluate CB_SourceProbeEnd
                     [YCPString url, YCPString (ProbeSrcErrorAsString error), YCPString reason] w1)
         else w1)"

section \<open>DownloadProgressReceive\<close>

text \<open>
  \<^verbatim>\<open>enum Error\<close> of \<^verbatim>\<open>zypp::media::DownloadProgressReport\<close>, with the integer a handler
  receives for it (the position in the declaration).
\<close>

datatype DownloadError = DL_NO_ERROR | DL_NOT_FOUND | DL_IO | DL_ACCESS_DENIED | DL_ERROR

fun DownloadError_code :: "DownloadError \<Rightarrow> int" where
  "DownloadError_code DL_NO_ERROR = 0"
| "DownloadError_code DL_NOT_FOUND = 1"
| "DownloadError_code DL_IO = 2"
| "DownloadError_code DL_ACCESS_DENIED = 3"
| "DownloadError_code DL_ERROR = 4"

type_synonym time_t = "64 word"

text \<open>\<^verbatim>\<open>static const time_t callback_timeout = 3\<close>.\<close>

definition callback_timeout :: time_t where
  "callback_timeout = 3"

text \<open>
  The throttle fields every receiver with a numeric progress stream carries:
  \<^verbatim>\<open>int last_reported; time_t last_reported_time\<close>.
\<close>

record DownloadProgressReceive =
  dp_last_reported :: "32 word"
  dp_last_reported_time :: time_t

text \<open>
  \<^verbatim>\<open>DownloadProgressReceive::start\<close>; \<open>current_time\<close> is what \<^verbatim>\<open>time(NULL)\<close> returns.
\<close>

definition DownloadProgressReceive_start ::
  "time_t \<Rightarrow> Url \<Rightarrow> string \<Rightarrow> DownloadProgressReceive \<Rightarrow> world
     \<Rightarrow> DownloadProgressReceive \<times> world" where
  "DownloadProgressReceive_start current_time file localfile r w =
     (let r1 = r\<lparr>dp_last_reported := 0, dp_last_reported_time := current_time\<rparr>
      in if cb_set w CB_StartDownload
         then (r1, snd (evaluate CB_StartDownload [YCPString file, YCPString localfile] w))
         else (r1, w))"


definition DownloadProgressReceive_problem ::
  "zypp_lib \<Rightarrow> Url \<Rightarrow> DownloadError \<Rightarrow> string \<Rightarrow> world \<Rightarrow> Action \<times> world" where
  "DownloadProgressReceive_problem z file error description w =
     (if cb_set w CB_DoneProvide then
        (let (ret, w1) = evaluateStr CB_DoneProvide
                           [YCPInteger (DownloadError_code error), YCPString description,
                            YCPString file] w;
             w2 = log_line y2milestone ''DoneProvide result: %s'' [YCPString ret] w1
         in if ret = ''R'' then (RETRY, w2)
            else if ret = ''C'' then (ABORT, w2)
            else if ret = ''I'' then (IGNORE, w2)
            else (DownloadProgressReport_problem z, w2))
      else (DownloadProgressReport_problem z, w))"

definition DownloadProgressReceive_finish ::
  "Url \<Rightarrow> DownloadError \<Rightarrow> string \<Rightarrow> world \<Rightarrow> world" where
  "DownloadProgressReceive_finish file error reason w =
     (let err = (if silent_probing w = MEDIA_CHANGE_DISABLE \<or>
                    silent_probing w = MEDIA_CHANGE_OPTIONALFILE
                 then DL_NO_ERROR else error)
      in if cb_set w CB_DoneDownload
         then snd (evaluate CB_DoneDownload
                     [YCPInteger (DownloadError_code err), YCPString reason] w)
         else w)"

section \<open>InstallPkgReceive and RemovePkgReceive\<close>

text \<open>
  \<^verbatim>\<open>enum Error\<close> and \<^verbatim>\<open>enum RpmLevel\<close> of \<^verbatim>\<open>InstallResolvableReport\<close>, with the integers
  passed to a handler or printed. The remove report and the resolvable download report
  declare the same four errors.
\<close>

datatype ReportError = NO_ERROR | NOT_FOUND | IO | INVALID

fun ReportError_code :: "ReportError \<Rightarrow> int" where
  "ReportError_code NO_ERROR = 0"
| "ReportError_code NOT_FOUND = 1"
| "ReportError_code IO = 2"
| "ReportError_code INVALID = 3"

datatype RpmLevel = RPM | RPM_NODEPS | RPM_NODEPS_FORCE

fun RpmLevel_code :: "RpmLevel \<Rightarrow> int" where
  "RpmLevel_code RPM = 0"
| "RpmLevel_code RPM_NODEPS = 1"
| "RpmLevel_code RPM_NODEPS_FORCE = 2"

text \<open>
  What the receivers read of a \<^verbatim>\<open>zypp::Resolvable::constPtr\<close>: the address it points to
  (two pointers are equal when the addresses are), whether \<^verbatim>\<open>asKind<Package>\<close> succeeds,
  and the attributes passed on to the handlers.
\<close>

record Resolvable =
  res_addr :: nat
  res_isPackage :: bool
  res_name :: string
  res_filename :: string
  res_summary :: string
  res_installSize :: int
  res_alias :: string
  res_mediaNr :: "32 word"

text \<open>
  The part of the \<^verbatim>\<open>PkgModuleFunctions\<close> object the receivers reach through \<^verbatim>\<open>_pkg_ref\<close>:
  the source and medium last reported to the SourceChange handler.
\<close>

record ReportedSource =
  last_reported_repo :: "64 word"
  last_reported_mediumnr :: "32 word"

record InstallPkgReceive =
  ip_last :: "nat option"
  ip_last_reported :: "32 word"
  ip_last_reported_time :: time_t

text \<open>
  \<^verbatim>\<open>InstallPkgReceive::start\<close>. \<open>logFindAlias\<close> is the method of \<^verbatim>\<open>PkgModuleFunctions\<close>
  that maps a repository alias to its id. A resolvable that is not a package makes
  \<^verbatim>\<open>res\<close> a null pointer, which the source dereferences: the result is \<open>None\<close>.
\<close>

definition InstallPkgReceive_start ::
  "(string \<Rightarrow> 64 word) \<Rightarrow> time_t \<Rightarrow> Resolvable \<Rightarrow> InstallPkgReceive \<Rightarrow> ReportedSource \<Rightarrow> world
     \<Rightarrow> (InstallPkgReceive \<times> ReportedSource \<times> world) option" where
  "InstallPkgReceive_start logFindAlias current_time resolvable r p w =
     (let r1 = r\<lparr>ip_last_reported := 0, ip_last_reported_time := current_time\<rparr>
      in if ip_last r1 = Some (res_addr resolvable) then Some (r1, p, w)
         else if \<not> res_isPackage resolvable then None
         else
           (let source_id = logFindAlias (res_alias resolvable);
                media_nr = res_mediaNr resolvable;
                (p1, w1) =
                  (if source_id \<noteq> last_reported_repo p \<or> media_nr \<noteq> last_reported_mediumnr p
                   then (p\<lparr>last_reported_repo := source_id, last_reported_mediumnr := media_nr\<rparr>,
                         if cb_set w CB_SourceChange
                         then snd (evaluate CB_SourceChange
                                     [YCPInteger (sint source_id), YCPInteger (sint media_nr)] w)
                         else w)
                   else (p, w));
                w2 = (if cb_set w1 CB_StartPackage
                      then snd (evaluate CB_StartPackage
                                  [YCPString (res_name resolvable),
                                   YCPString (res_filename resolvable),
                                   YCPString (res_summary resolvable),
                                   YCPInteger (res_installSize resolvable),
                                   YCPBoolean False] w1)
                      else w1)
            in Some (r1\<lparr>ip_last := Some (res_addr resolvable)\<rparr>, p1, w2)))"

text \<open>\<^verbatim>\<open>InstallPkgReceive::progress\<close>.\<close>

definition InstallPkgReceive_progress ::
  "zypp_lib \<Rightarrow> time_t \<Rightarrow> 32 word \<Rightarrow> InstallPkgReceive \<Rightarrow> world
     \<Rightarrow> bool \<times> InstallPkgReceive \<times> world" where
  "InstallPkgReceive_progress z current_time val r w =
     (if cb_set w CB_ProgressPackage \<and>
         (5 <=s val - ip_last_reported r \<or> 5 <=s ip_last_reported r - val \<or> val = 100 \<or>
          callback_timeout <=s current_time - ip_last_reported_time r)
      then (let (res, w1) = evaluateBool CB_ProgressPackage [YCPInteger (sint val)] False w;
                w2 = (if \<not> res
                      then log_line y2milestone ''Package installation callback returned abort'' [] w1
                      else w1)
            in (res, r\<lparr>ip_last_reported := val, ip_last_reported_time := current_time\<rparr>, w2))
      else (InstallResolvableReport_progress z, r, w))"

text \<open>\<^verbatim>\<open>InstallPkgReceive::problem\<close>.\<close>

definition InstallPkgReceive_problem ::
  "zypp_lib \<Rightarrow> ReportError \<Rightarrow> string \<Rightarrow> RpmLevel \<Rightarrow> InstallPkgReceive \<Rightarrow> world
     \<Rightarrow> Action \<times> InstallPkgReceive \<times> world" where
  "InstallPkgReceive_problem z error description level r w =
     (if level \<noteq> RPM_NODEPS_FORCE
      then (ABORT, r,
            log_line y2milestone ''Retrying installation problem with too low severity (%d)''
              [YCPInteger (RpmLevel_code level)] w)
      else
        (let r1 = r\<lparr>ip_last := None\<rparr>
         in if cb_set w CB_DonePackage then
              (let (ret, w1) = evaluateStr CB_DonePackage
                                 [YCPInteger (ReportError_code error), YCPString description] w
               in if ret = ''R'' then (RETRY, r1, w1)
                  else if ret = ''C'' then (ABORT, r1, w1)
                  else (IGNORE, r1, w1))
            else (InstallResolvableReport_problem z, r1, w)))"

text \<open>\<^verbatim>\<open>InstallPkgReceive::finish\<close>.\<close>

definition InstallPkgReceive_finish ::
  "ReportError \<Rightarrow> string \<Rightarrow> RpmLevel \<Rightarrow> world \<Rightarrow> world" where
  "InstallPkgReceive_finish error reason level w =
     (if error \<noteq> NO_ERROR \<and> level \<noteq> RPM_NODEPS_FORCE
      then log_line y2milestone
             ''Skipping finish due to retrying installation problem with too low severity (%d)''
             [YCPInteger (RpmLevel_code level)] w
      else if cb_set w CB_DonePackage
      then snd (evaluateStr CB_DonePackage
                  [YCPInteger (ReportError_code
                                 (if level = RPM_NODEPS_FORCE then error else NO_ERROR)),
                   YCPString reason] w)
      else w)"

text \<open>\<^verbatim>\<open>RemovePkgReceive::problem\<close>.\<close>

definition RemovePkgReceive_problem ::
  "zypp_lib \<Rightarrow> ReportError \<Rightarrow> string \<Rightarrow> world \<Rightarrow> Action \<times> world" where
  "RemovePkgReceive_problem z error description w =
     (if cb_set w CB_DonePackage then
        (let (ret, w1) = evaluateStr CB_DonePackage
                           [YCPInteger (ReportError_code error), YCPString description] w
         in if ret = ''R'' then (RETRY, w1)
            else if ret = ''C'' then (ABORT, w1)
            else (IGNORE, w1))
      else (RemoveResolvableReport_problem z, w))"

section \<open>DownloadResolvableReceive\<close>



text \<open>\<^verbatim>\<open>DownloadResolvableReceive::problem\<close>; \<open>name\<close> is \<^verbatim>\<open>resolvable_ptr->name()\<close>.\<close>

definition DownloadResolvableReceive_problem ::
  "zypp_lib \<Rightarrow> string \<Rightarrow> ReportError \<Rightarrow> string \<Rightarrow> world \<Rightarrow> Action \<times> world" where
  "DownloadResolvableReceive_problem z name error description w =
     (if cb_set w CB_DoneProvide then
        (let (ret, w1) = evaluateStr CB_DoneProvide
                           [YCPInteger (ReportError_code error), YCPString description,
                            YCPString name] w
         in if ret = ''R'' then (RETRY, w1)
            else if ret = ''C'' then (ABORT, w1)
            else if ret = ''I'' then (IGNORE, w1)
            else (DownloadResolvableReport_problem z, w1))
      else (DownloadResolvableReport_problem z, w))"

section \<open>ScriptExecReceive and SourceCreateReceive\<close>

text \<open>\<^verbatim>\<open>ScriptExecReceive::problem\<close>.\<close>

definition ScriptExecReceive_problem :: "zypp_lib \<Rightarrow> string \<Rightarrow> world \<Rightarrow> Action \<times> world" where
  "ScriptExecReceive_problem z description w =
     (if cb_set w CB_ScriptProblem then
        (let (ret, w1) = evaluateStr CB_ScriptProblem [YCPString description] w
         in if ret = ''A'' then (ABORT, w1)
            else if ret = ''I'' then (IGNORE, w1)
            else if ret = ''R'' then (RETRY, w1)
            else (PatchScriptReport_problem z,
                  log_line y2error ''Unknown return value: %s'' [YCPString ret] w1))
      else (PatchScriptReport_problem z, w))"

datatype RepoCreateError =
  Create_NO_ERROR | Create_NOT_FOUND | Create_IO | Create_INVALID | Create_REJECTED
  | Create_UNKNOWN

fun CreateSrcErrorAsString :: "RepoCreateError \<Rightarrow> string" where
  "CreateSrcErrorAsString Create_NO_ERROR = ''NO_ERROR''"
| "CreateSrcErrorAsString Create_NOT_FOUND = ''NOT_FOUND''"
| "CreateSrcErrorAsString Create_IO = ''IO''"
| "CreateSrcErrorAsString Create_INVALID = ''INVALID''"
| "CreateSrcErrorAsString Create_REJECTED = ''REJECTED''"
| "CreateSrcErrorAsString Create_UNKNOWN = ''UNKNOWN''"

text \<open>\<^verbatim>\<open>SourceCreateReceive::problem\<close>.\<close>

definition SourceCreateReceive_problem ::
  "zypp_lib \<Rightarrow> Url \<Rightarrow> RepoCreateError \<Rightarrow> string \<Rightarrow> world \<Rightarrow> Action \<times> world" where
  "SourceCreateReceive_problem z url error description w =
     (if cb_set w CB_SourceCreateError then
        (let (result, w1) = evaluateSymbol CB_SourceCreateError
                              [YCPString url, YCPString (CreateSrcErrorAsString error),
                               YCPString description] w
         in if result = ''ABORT'' then (ABORT, w1)
            else if result = ''RETRY'' then (RETRY, w1)
            else (RepoCreateReport_problem z,
                  log_line y2error ''Unexpected symbol '%s' returned from callback.''
                    [YCPString result] w1))
      else (RepoCreateReport_problem z, w))"

section \<open>ResolvableNeutral\<close>

text \<open>
  A pool item as \<^verbatim>\<open>Resolvable.cc\<close> sees it: kind, name and the status record of the
  engine, here its transact flag and the authority that set it.
\<close>

datatype ResKind = Kind_product | Kind_patch | Kind_package | Kind_selection | Kind_pattern

datatype TransactByValue = SOLVER | APPL_LOW | APPL_HIGH | USER

fun TransactBy_rank :: "TransactByValue \<Rightarrow> nat" where
  "TransactBy_rank SOLVER = 0"
| "TransactBy_rank APPL_LOW = 1"
| "TransactBy_rank APPL_HIGH = 2"
| "TransactBy_rank USER = 3"

record ResStatus =
  transacts :: bool
  transactBy :: TransactByValue

record PoolItem =
  item_kind :: ResKind
  item_name :: string
  item_status :: ResStatus

text \<open>
  Modelled from the spec: \<^verbatim>\<open>ResStatus::resetTransact\<close> belongs to the engine and is not
  part of the sources. The operation clears the transact flag at the given authority; it
  returns false and changes nothing when the mark was set by a higher authority (marks of
  higher-precedence authorities survive lower-precedence resets), and the authority of an
  item is the actor that last set its flag.
\<close>

definition resetTransact :: "TransactByValue \<Rightarrow> ResStatus \<Rightarrow> bool \<times> ResStatus" where
  "resetTransact causer st =
     (if \<not> transacts st then (True, st)
      else if TransactBy_rank causer < TransactBy_rank (transactBy st) then (False, st)
      else (True, st\<lparr>transacts := False, transactBy := causer\<rparr>))"

text \<open>
  Modelled from the spec: the constant \<^verbatim>\<open>whoWantsIt\<close> is declared in a header that is not
  part of the sources; the documentation of \<^verbatim>\<open>ResolvableNeutral\<close> names the default level
  APPL_HIGH.
\<close>

definition whoWantsIt :: TransactByValue where
  "whoWantsIt = APPL_HIGH"

text \<open>The chain of comparisons on the kind symbol, shared by the functions of the file.\<close>

definition kind_of_symbol :: "string \<Rightarrow> ResKind option" where
  "kind_of_symbol req_kind =
     (if req_kind = ''product'' then Some Kind_product
      else if req_kind = ''patch'' then Some Kind_patch
      else if req_kind = ''package'' then Some Kind_package
      else if req_kind = ''selection'' then Some Kind_selection
      else if req_kind = ''pattern'' then Some Kind_pattern
      else None)"

text \<open>
  The body of the loop of \<^verbatim>\<open>ResolvableNeutral\<close> for one item of the requested kind:
  the item after it and the new value of \<^verbatim>\<open>ret\<close>.
\<close>

definition neutral_item :: "string \<Rightarrow> bool \<Rightarrow> PoolItem \<Rightarrow> bool \<Rightarrow> PoolItem \<times> bool" where
  "neutral_item name force it ret =
     (if name = [] \<or> item_name it = name then
        (let (ok1, st1) = resetTransact whoWantsIt (item_status it);
             ret1 = (if \<not> ok1 then False else ret)
         in if force then
              (let (ok2, st2) = resetTransact USER st1
               in (it\<lparr>item_status := st2\<rparr>, if \<not> ok2 then False else ret1))
            else (it\<lparr>item_status := st1\<rparr>, ret1))
      else (it, ret))"

text \<open>
  The loop from \<^verbatim>\<open>byKindBegin(kind)\<close> to \<^verbatim>\<open>byKindEnd(kind)\<close>: the items of other kinds
  are passed over.
\<close>

fun neutral_loop ::
  "ResKind \<Rightarrow> string \<Rightarrow> bool \<Rightarrow> PoolItem list \<Rightarrow> bool \<Rightarrow> PoolItem list \<times> bool" where
  "neutral_loop kind name force [] ret = ([], ret)"
| "neutral_loop kind name force (it # its) ret =
     (if item_kind it = kind then
        (let (it', ret') = neutral_item name force it ret;
             (its', ret'') = neutral_loop kind name force its ret'
         in (it' # its', ret''))
      else
        (let (its', ret') = neutral_loop kind name force its ret
         in (it # its', ret')))"

text \<open>
  \<^verbatim>\<open>PkgModuleFunctions::ResolvableNeutral\<close>. The pool is \<open>None\<close> when \<^verbatim>\<open>zypp_ptr()\<close>
  throws, which the \<^verbatim>\<open>catch (...)\<close> turns into the result false.
\<close>

definition ResolvableNeutral ::
  "string \<Rightarrow> string \<Rightarrow> bool \<Rightarrow> PoolItem list option \<Rightarrow> world
     \<Rightarrow> YCPValue \<times> PoolItem list option \<times> world" where
  "ResolvableNeutral name_r kind_r force_r pool w =
     (case kind_of_symbol kind_r of
        None \<Rightarrow> (YCPBoolean False, pool,
                 log_line y2error ''Pkg::ResolvableNeutral: unknown symbol: %s''
                   [YCPString kind_r] w)
      | Some kind \<Rightarrow>
          (case pool of
             None \<Rightarrow> (YCPBoolean False, None, w)
           | Some items \<Rightarrow>
               (let (items', ret) = neutral_loop kind name_r force_r items True
                in (YCPBoolean ret, Some items', w))))"

section \<open>PkgCommit\<close>

text \<open>
  What \<^verbatim>\<open>PkgCommit\<close> and \<^verbatim>\<open>CreateBaseProductSymlink\<close> do to the outside is recorded in
  order: the release of the repositories, the system calls and the log lines.
\<close>

datatype effect =
    SourceReleaseAll_called
  | Sys_stat string
  | Sys_unlink string
  | Sys_symlink string string
  | Logged loglevel string "YCPValue list"

text \<open>
  The reference package of the base product: \<^verbatim>\<open>base_product->referencePackage()\<close> is
  \<^verbatim>\<open>noSolvable\<close>, a solvable that is not a package, or a package.
\<close>

record RefPackage =
  ref_name :: string
  ref_edition :: string
  ref_filenames :: "string list"

datatype Solvable = noSolvable | NotAPackage | APackage RefPackage

record PkgFunctions =
  pf_last_reported_repo :: "64 word"
  pf_last_reported_mediumnr :: "32 word"
  pf_last_error :: string
  base_product :: "Solvable option"
  target_root :: string
  effects :: "effect list"

definition effect :: "effect \<Rightarrow> PkgFunctions \<Rightarrow> PkgFunctions" where
  "effect e p = p\<lparr>effects := effects p @ [e]\<rparr>"

text \<open>
  The outcome of the three system calls is an input of the model: \<^verbatim>\<open>stat\<close> succeeds,
  fails with ENOENT or fails with another error; \<^verbatim>\<open>unlink\<close> and \<^verbatim>\<open>symlink\<close> succeed or
  fail with the message \<^verbatim>\<open>strerror(errno)\<close>.
\<close>

datatype stat_result = Stat_ok | Stat_ENOENT | Stat_failed string

record os_outcome =
  os_stat :: stat_result
  os_unlink :: "string option"
  os_symlink :: "string option"

text \<open>
  The regular expression \<^verbatim>\<open>^/etc/products\.d/(.*\.prod)$\<close>: the file name starts with
  the directory, ends with the suffix, and the group is what follows the directory.
\<close>

definition product_file_regex :: "string \<Rightarrow> string option" where
  "product_file_regex f =
     (let dir = ''/etc/products.d/''; suffix = ''.prod''
      in if take (length dir) f = dir \<and> length dir + length suffix \<le> length f \<and>
            drop (length f - length suffix) f = suffix
         then Some (drop (length dir) f)
         else None)"

fun find_product_file :: "string list \<Rightarrow> string" where
  "find_product_file [] = []"
| "find_product_file (f # files) =
     (case product_file_regex f of
        Some what1 \<Rightarrow> what1
      | None \<Rightarrow> find_product_file files)"

text \<open>
  \<^verbatim>\<open>PkgFunctions::CreateBaseProductSymlink\<close>. \<open>base_link\<close> is the path
  \<^verbatim>\<open>_target_root / "/etc/products.d/baseproduct"\<close>, computed by the engine's
  \<^verbatim>\<open>Pathname\<close>.
\<close>

definition CreateBaseProductSymlink ::
  "(string \<Rightarrow> string \<Rightarrow> string) \<Rightarrow> os_outcome \<Rightarrow> PkgFunctions \<Rightarrow> bool \<times> PkgFunctions" where
  "CreateBaseProductSymlink Pathname_cat os p =
     (case base_product p of
        None \<Rightarrow> (True, effect (Logged y2debug ''A base product has not been added'' []) p)
      | Some refsolvable \<Rightarrow>
          (let p0 = effect (Logged y2milestone ''Creating symlink for the base product...'' []) p
           in case refsolvable of
                noSolvable \<Rightarrow>
                  (True, effect (Logged y2milestone
                                   ''The base product doesn't have any reference package'' []) p0)
              | NotAPackage \<Rightarrow>
                  (False, effect (Logged y2error ''The reference solvable is not a package'' []) p0)
              | APackage refpkg \<Rightarrow>
                  (let p1 = effect (Logged y2milestone
                                      ''Found reference package for the base product: %s-%s''
                                      [YCPString (ref_name refpkg), YCPString (ref_edition refpkg)]) p0;
                       files = ref_filenames refpkg;
                       p2 = effect (Logged y2milestone ''The reference package has %zd files''
                                      [YCPInteger (int (length files))]) p1;
                       product_file = find_product_file files
                   in if product_file = [] then
                        (False, effect (Logged y2error ''The product file has not been found'' []) p2)
                      else
                        (let p3 = effect (Logged y2milestone ''Found product file %s''
                                            [YCPString product_file]) p2;
                             base_link = Pathname_cat (target_root p) ''/etc/products.d/baseproduct'';
                             p4 = effect (Sys_stat base_link) p3;
                             removed =
                               (case os_stat os of
                                  Stat_ok \<Rightarrow>
                                    (let p5 = effect (Sys_unlink base_link) p4
                                     in case os_unlink os of
                                          Some err \<Rightarrow>
                                            Inl (effect (Logged y2error
                                                           ''Cannot remove base link file %s: %s''
                                                           [YCPString base_link, YCPString err]) p5)
                                        | None \<Rightarrow> Inr p5)
                                | Stat_failed err \<Rightarrow>
                                    Inl (effect (Logged y2error ''Cannot stat %s file: %s''
                                                   [YCPString base_link, YCPString err]) p4)
                                | Stat_ENOENT \<Rightarrow>
                                    Inr (effect (Logged y2debug ''Link %s does not exist''
                                                   [YCPString base_link]) p4))
                         in case removed of
                              Inl failed \<Rightarrow> (False, failed)
                            | Inr p6 \<Rightarrow>
                                (let p7 = effect (Sys_symlink product_file base_link) p6
                                 in case os_symlink os of
                                      Some err \<Rightarrow>
                                        (False, effect (Logged y2error
                                                          ''Cannot create symlink %s -> %s: %s''
                                                          [YCPString base_link,
                                                           YCPString product_file,
                                                           YCPString err]) p7)
                                    | None \<Rightarrow>
                                        (True, effect (Logged y2milestone
                                                         ''Symlink %s -> %s has been created''
                                                         [YCPString base_link,
                                                          YCPString product_file]) p7))))))"

text \<open>
  The engine's \<^verbatim>\<open>commit\<close>: it returns a \<^verbatim>\<open>CommitResult\<close> or throws, and while it runs it
  may change the state through the receivers. The items of the result lists carry what
  the report reads of them.
\<close>

datatype CommitKind = is_Product | is_Pattern | is_Patch | is_Other

record CommitItem =
  ci_name :: string
  ci_kind :: CommitKind
  ci_arch :: string
  ci_edition :: string

record CommitResult =
  cr_result :: "32 word"
  cr_errors :: "CommitItem list"
  cr_remaining :: "CommitItem list"
  cr_srcremaining :: "CommitItem list"

datatype CommitOutcome =
    Committed CommitResult
  | TargetAbortedException
  | ZyppException string

type_synonym engine_commit = "32 word \<Rightarrow> PkgFunctions \<Rightarrow> CommitOutcome \<times> PkgFunctions"

text \<open>
  Modelled from the spec: \<^verbatim>\<open>PkgFunctions::SourceReleaseAll\<close> is not part of the sources;
  it releases all repository handles, which is recorded as one effect.
\<close>

definition SourceReleaseAll :: "PkgFunctions \<Rightarrow> PkgFunctions" where
  "SourceReleaseAll p = effect SourceReleaseAll_called p"

definition remaining_map :: "CommitItem \<Rightarrow> YCPValue" where
  "remaining_map it =
     YCPMap [(''name'', YCPString (ci_name it)),
             (''kind'', YCPSymbol (case ci_kind it of
                                     is_Product \<Rightarrow> ''product''
                                   | is_Pattern \<Rightarrow> ''pattern''
                                   | is_Patch \<Rightarrow> ''patch''
                                   | is_Other \<Rightarrow> ''package'')),
             (''arch'', YCPString (ci_arch it)),
             (''version'', YCPString (ci_edition it))]"

text \<open>
  \<^verbatim>\<open>PkgFunctions::PkgCommit\<close>. \<open>media\<close> is the value of the YCP integer, narrowed to
  \<^verbatim>\<open>int\<close>; the message of a caught exception is what \<^verbatim>\<open>ExceptionAsString\<close> makes of it.
\<close>

definition PkgCommit ::
  "engine_commit \<Rightarrow> (string \<Rightarrow> string \<Rightarrow> string) \<Rightarrow> os_outcome \<Rightarrow> int \<Rightarrow> PkgFunctions
     \<Rightarrow> YCPValue \<times> PkgFunctions" where
  "PkgCommit commit Pathname_cat os media p =
     (let medianr = (word_of_int media :: 32 word)
      in if medianr <s 0 then (YCPError ''Bad args to Pkg::PkgCommit'', p)
         else
           (case commit medianr (p\<lparr>pf_last_reported_repo := - 1, pf_last_reported_mediumnr := 1\<rparr>) of
              (TargetAbortedException, p1) \<Rightarrow>
                (YCPList [YCPInteger (- 1)],
                 effect (Logged y2milestone ''Installation aborted by user'' []) p1)
            | (ZyppException excpt, p1) \<Rightarrow>
                (YCPVoid,
                 (effect (Logged y2error ''Pkg::Commit has failed: ZYpp::commit has failed'' []) p1)
                   \<lparr>pf_last_error := excpt\<rparr>)
            | (Committed result, p1) \<Rightarrow>
                (let p2 = SourceReleaseAll p1;
                     (linked, p3) = CreateBaseProductSymlink Pathname_cat os p2
                 in (YCPList [YCPInteger (sint (cr_result result)),
                              YCPList (map (\<lambda>it. YCPString (ci_name it)) (cr_errors result)),
                              YCPList (map remaining_map (cr_remaining result)),
                              YCPList (map (\<lambda>it. YCPString (ci_name it)) (cr_srcremaining result))],
                     p3))))"

section \<open>The throttle as the specification words it\<close>



text \<open>
  A synthetic stream: the engine delivers the values of a list to
  \<^verbatim>\<open>InstallPkgReceive::progress\<close>, one after the other, while the clock stands at \<open>t\<close>.
\<close>

fun progress_stream ::
  "zypp_lib \<Rightarrow> time_t \<Rightarrow> 32 word list \<Rightarrow> InstallPkgReceive \<Rightarrow> world
     \<Rightarrow> InstallPkgReceive \<times> world" where
  "progress_stream z t [] r w = (r, w)"
| "progress_stream z t (v # vs) r w =
     (case InstallPkgReceive_progress z t v r w of
        (res, r', w') \<Rightarrow> progress_stream z t vs r' w')"

text \<open>
  The whole life of such a stream: \<^verbatim>\<open>start\<close> at time \<open>t\<close>, then the values; the result
  is the number of times the progress handler has been called at the end.
\<close>

definition install_stream ::
  "(string \<Rightarrow> 64 word) \<Rightarrow> zypp_lib \<Rightarrow> time_t \<Rightarrow> Resolvable \<Rightarrow> 32 word list
     \<Rightarrow> InstallPkgReceive \<Rightarrow> ReportedSource \<Rightarrow> world \<Rightarrow> nat option" where
  "install_stream logFindAlias z t resolvable vs r p w =
     (case InstallPkgReceive_start logFindAlias t resolvable r p w of
        None \<Rightarrow> None
      | Some (r1, p1, w1) \<Rightarrow>
          Some (invocations CB_ProgressPackage (snd (progress_stream z t vs r1 w1))))"

text \<open>
  The same stream, observed through the handler calls made while the values are
  delivered: callback and argument tuple of each, in order.
\<close>

definition install_stream_calls ::
  "(string \<Rightarrow> 64 word) \<Rightarrow> zypp_lib \<Rightarrow> time_t \<Rightarrow> Resolvable \<Rightarrow> 32 word list
     \<Rightarrow> InstallPkgReceive \<Rightarrow> ReportedSource \<Rightarrow> world \<Rightarrow> (CBid \<times> YCPValue list) list option" where
  "install_stream_calls logFindAlias z t resolvable vs r p w =
     (case InstallPkgReceive_start logFindAlias t resolvable r p w of
        None \<Rightarrow> None
      | Some (r1, p1, w1) \<Rightarrow>
          Some (drop (length (evaluated w1)) (evaluated (snd (progress_stream z t vs r1 w1)))))"

text \<open>The values a stream reports when no time passes, given the value reported last.\<close>

fun reports :: "32 word \<Rightarrow> 32 word list \<Rightarrow> 32 word list" where
  "reports prev [] = []"
| "reports prev (v # vs) =
     (if 5 <=s v - prev \<or> 5 <=s prev - v \<or> v = 100
      then v # reports v vs else reports prev vs)"

section \<open>Concrete inputs\<close>

text \<open>
  A registry with a handler for every callback, a state built on it, and an engine with
  the defaults of the report classes.
\<close>

definition example_handlers :: YCPCallbacks where
  "example_handlers cb =
     (if cb = CB_MediaChange then Some (\<lambda>args. YCPString ''http://example.com/repo'')
      else if cb \<in> {CB_ProgressPackage, CB_ProgressProvide, CB_ProgressDownload}
        then Some (\<lambda>args. YCPBoolean True)
      else if cb \<in> {CB_DonePackage, CB_DoneProvide, CB_ScriptProblem}
        then Some (\<lambda>args. YCPString ''X'')
      else if cb = CB_SourceCreateError then Some (\<lambda>args. YCPSymbol ''IGNORE'')
      else Some (\<lambda>args. YCPVoid))"

definition example_world :: "MediaChangeSensitivity \<Rightarrow> world" where
  "example_world sp =
     \<lparr>ycpcb = example_handlers, silent_probing = sp, redirect_map = Map.empty,
      evaluated = [], y2log = []\<rparr>"

definition example_zypp :: zypp_lib where
  "example_zypp =
     \<lparr>Url_ctor = (\<lambda>s. if CHR '':'' \<in> set s then Some s else None),
      strtonum = (\<lambda>s. 0),
      MediaChangeReport_requestMedia = MediaChange_ABORT,
      InstallResolvableReport_progress = True,
      InstallResolvableReport_problem = ABORT,
      RemoveResolvableReport_problem = ABORT,
      DownloadResolvableReport_progress = True,
      DownloadResolvableReport_problem = ABORT,
      DownloadProgressReport_progress = True,
      DownloadProgressReport_problem = ABORT,
      PatchScriptReport_problem = ABORT,
      RepoCreateReport_problem = ABORT\<rparr>"




definition example_install :: InstallPkgReceive where
  "example_install = \<lparr>ip_last = None, ip_last_reported = 0, ip_last_reported_time = 1000\<rparr>"

definition example_resolvable :: Resolvable where
  "example_resolvable =
     \<lparr>res_addr = 1, res_isPackage = True, res_name = ''yast2'', res_filename = ''yast2.rpm'',
      res_summary = ''YaST2'', res_installSize = 4096, res_alias = ''main'', res_mediaNr = 1\<rparr>"

definition example_pool :: "PoolItem list" where
  "example_pool =
     [\<lparr>item_kind = Kind_package, item_name = ''vim'',
       item_status = \<lparr>transacts = True, transactBy = USER\<rparr>\<rparr>,
      \<lparr>item_kind = Kind_package, item_name = ''vim'',
       item_status = \<lparr>transacts = True, transactBy = APPL_HIGH\<rparr>\<rparr>,
      \<lparr>item_kind = Kind_package, item_name = ''emacs'',
       item_status = \<lparr>transacts = True, transactBy = APPL_HIGH\<rparr>\<rparr>,
      \<lparr>item_kind = Kind_pattern, item_name = ''vim'',
       item_status = \<lparr>transacts = True, transactBy = SOLVER\<rparr>\<rparr>]"

text \<open>
  What a call of \<^verbatim>\<open>ResolvableNeutral\<close> is claimed to do to one pool item: an item of the
  kind whose name matches (any name when the name is empty) keeps kind and name; with
  force its transact flag is clear afterwards; without force a status set by USER is
  untouched and any other has its transact flag clear. Other items are unchanged.
\<close>

definition neutral_effect :: "ResKind \<Rightarrow> string \<Rightarrow> bool \<Rightarrow> PoolItem \<Rightarrow> PoolItem \<Rightarrow> bool" where
  "neutral_effect kind name force it it' =
     (if item_kind it = kind \<and> (name = [] \<or> item_name it = name)
      then item_kind it' = item_kind it \<and> item_name it' = item_name it \<and>
           (if force then \<not> transacts (item_status it')
            else if transactBy (item_status it) = USER then item_status it' = item_status it
            else \<not> transacts (item_status it'))
      else it' = it)"

text \<open>
  What a call did to the outside between two states, log lines left out: the effects
  recorded after those of the earlier state.
\<close>

definition is_side_effect :: "effect \<Rightarrow> bool" where
  "is_side_effect e = (case e of Logged lvl fmt args \<Rightarrow> False | _ \<Rightarrow> True)"

definition side_effects :: "PkgFunctions \<Rightarrow> PkgFunctions \<Rightarrow> effect list" where
  "side_effects before after =
     filter is_side_effect (drop (length (effects before)) (effects after))"

text \<open>
  An engine whose commit ends with a given outcome and touches nothing, a state with a
  base product whose reference package ships a product file, and a system where the link
  does not exist yet and can be created.
\<close>

definition example_commit :: "CommitOutcome \<Rightarrow> engine_commit" where
  "example_commit outcome medianr p = (outcome, p)"

definition example_pkg :: PkgFunctions where
  "example_pkg =
     \<lparr>pf_last_reported_repo = 3, pf_last_reported_mediumnr = 2, pf_last_error = [],
      base_product = Some (APackage \<lparr>ref_name = ''openSUSE-release'', ref_edition = ''11.1'',
                                     ref_filenames = [''/etc/SuSE-release'',
                                                      ''/etc/products.d/openSUSE.prod'']\<rparr>),
      target_root = ''/mnt'', effects = []\<rparr>"

definition example_os :: os_outcome where
  "example_os = \<lparr>os_stat = Stat_ENOENT, os_unlink = None, os_symlink = None\<rparr>"

definition example_result :: CommitResult where
  "example_result =
     \<lparr>cr_result = 5,
      cr_errors = [\<lparr>ci_name = ''vim'', ci_kind = is_Other, ci_arch = ''i586'', ci_edition = ''7.2''\<rparr>],
      cr_remaining = [\<lparr>ci_name = ''base'', ci_kind = is_Pattern, ci_arch = ''noarch'',
                       ci_edition = ''11.1''\<rparr>],
      cr_srcremaining = []\<rparr>"

section \<open>Facts about the registry\<close>

lemma cb_set_example: "cb_set (example_world sp) cb"
  by (simp add: cb_set_def example_world_def example_handlers_def)

lemma evaluateBool_evaluated:
  "cb_set w cb \<Longrightarrow>
     evaluated (snd (evaluateBool cb args dflt w)) = evaluated w @ [(cb, args)]"
  by (auto simp add: evaluateBool_def evaluate_def cb_set_def
           split: option.splits YCPValue.splits)

lemma evaluateBool_ycpcb: "ycpcb (snd (evaluateBool cb args dflt w)) = ycpcb w"
  by (auto simp add: evaluateBool_def evaluate_def split: option.splits YCPValue.splits)

lemma invocations_append:
  "evaluated w' = evaluated w @ [(cb, args)] \<Longrightarrow> invocations cb w' = Suc (invocations cb w)"
  by (simp add: invocations_def)

section \<open>Media change and silent probing\<close>

text \<open>
  C4. A media-change request made while \<^verbatim>\<open>_silent_probing\<close> is DISABLE, or while it is
  OPTIONALFILE and the error is NOT_FOUND, returns ABORT and leaves the whole state as it
  was: no handler is called, and the invocation counter of the MediaChange handler keeps
  its value.
\<close>

theorem media_change_suppressed:
  assumes "silent_probing w = MEDIA_CHANGE_DISABLE \<or>
           (silent_probing w = MEDIA_CHANGE_OPTIONALFILE \<and> error = MC_NOT_FOUND)"
  shows "requestMedia z url mediumNr label error description devices dev_current w =
           ((MediaChange_ABORT, url, dev_current), w) \<and>
         invocations CB_MediaChange
           (snd (requestMedia z url mediumNr label error description devices dev_current w)) =
         invocations CB_MediaChange w"
  using assms by (auto simp add: requestMedia_def)

theorem media_change_suppressed_witness:
  "fst (requestMedia example_zypp ''cd:///'' 2 ''SLES'' MC_WRONG ''wrong medium'' [] 0
          (example_world MEDIA_CHANGE_DISABLE)) = (MediaChange_ABORT, ''cd:///'', 0) \<and>
   invocations CB_MediaChange
     (snd (requestMedia example_zypp ''cd:///'' 2 ''SLES'' MC_WRONG ''wrong medium'' [] 0
             (example_world MEDIA_CHANGE_DISABLE))) = 0 \<and>
   fst (requestMedia example_zypp ''cd:///'' 2 ''SLES'' MC_NOT_FOUND ''no such file'' [] 0
          (example_world MEDIA_CHANGE_OPTIONALFILE)) = (MediaChange_ABORT, ''cd:///'', 0) \<and>
   invocations CB_MediaChange
     (snd (requestMedia example_zypp ''cd:///'' 2 ''SLES'' MC_NOT_FOUND ''no such file'' [] 0
             (example_world MEDIA_CHANGE_OPTIONALFILE))) = 0"
  using media_change_suppressed [of "example_world MEDIA_CHANGE_DISABLE" MC_WRONG example_zypp
          "''cd:///''" 2 "''SLES''" "''wrong medium''" "[]" 0]
        media_change_suppressed [of "example_world MEDIA_CHANGE_OPTIONALFILE" MC_NOT_FOUND
          example_zypp "''cd:///''" 2 "''SLES''" "''no such file''" "[]" 0]
  by (simp add: example_world_def invocations_def)

text \<open>
  C9. While \<^verbatim>\<open>_silent_probing\<close> is DISABLE or OPTIONALFILE, the finish of a download calls
  the registered DoneDownload handler with the code of NO_ERROR, whatever error the
  download ended with.
\<close>

theorem download_finish_reports_no_error:
  assumes "silent_probing w = MEDIA_CHANGE_DISABLE \<or>
           silent_probing w = MEDIA_CHANGE_OPTIONALFILE"
    and "cb_set w CB_DoneDownload"
  shows "evaluated (DownloadProgressReceive_finish file error reason w) =
           evaluated w @
             [(CB_DoneDownload, [YCPInteger (DownloadError_code DL_NO_ERROR), YCPString reason])]"
  using assms by (auto simp add: DownloadProgressReceive_finish_def evaluate_def cb_set_def)

theorem download_finish_reports_no_error_witness:
  "silent_probing (example_world MEDIA_CHANGE_OPTIONALFILE) = MEDIA_CHANGE_OPTIONALFILE \<and>
   cb_set (example_world MEDIA_CHANGE_OPTIONALFILE) CB_DoneDownload \<and>
   evaluated (DownloadProgressReceive_finish ''http://host/file'' DL_IO ''timeout''
                (example_world MEDIA_CHANGE_OPTIONALFILE)) =
     [(CB_DoneDownload, [YCPInteger 0, YCPString ''timeout''])]"
  using download_finish_reports_no_error [of "example_world MEDIA_CHANGE_OPTIONALFILE"
          "''http://host/file''" DL_IO "''timeout''"]
  by (simp add: example_world_def cb_set_def example_handlers_def)

section \<open>Install problems of low severity\<close>

text \<open>
  C3. A problem of a package installation reported at a level below RPM_NODEPS_FORCE
  returns ABORT without calling any handler, and a finish at such a level with an error
  other than NO_ERROR calls no handler either, so DonePackage is not invoked.
\<close>

theorem install_problem_low_severity:
  assumes "RpmLevel_code level < RpmLevel_code RPM_NODEPS_FORCE"
  shows "fst (InstallPkgReceive_problem z error description level r w) = ABORT \<and>
         evaluated (snd (snd (InstallPkgReceive_problem z error description level r w)))
           = evaluated w \<and>
         (error \<noteq> NO_ERROR \<longrightarrow>
            evaluated (InstallPkgReceive_finish error reason level w') = evaluated w')"
  using assms
  by (cases level)
     (simp_all add: InstallPkgReceive_problem_def InstallPkgReceive_finish_def log_line_def)

theorem install_problem_low_severity_witness:
  "RpmLevel_code RPM_NODEPS < RpmLevel_code RPM_NODEPS_FORCE \<and> IO \<noteq> NO_ERROR \<and>
   fst (InstallPkgReceive_problem example_zypp IO ''conflict'' RPM_NODEPS example_install
          (example_world MEDIA_CHANGE_FULL)) = ABORT \<and>
   evaluated (snd (snd (InstallPkgReceive_problem example_zypp IO ''conflict'' RPM_NODEPS
          example_install (example_world MEDIA_CHANGE_FULL)))) = [] \<and>
   evaluated (InstallPkgReceive_finish IO ''conflict'' RPM_NODEPS (example_world MEDIA_CHANGE_FULL))
     = []"
  using install_problem_low_severity [of RPM_NODEPS example_zypp IO "''conflict''"
          example_install "example_world MEDIA_CHANGE_FULL" "''conflict''"
          "example_world MEDIA_CHANGE_FULL"]
  by (simp add: example_world_def)

section \<open>The progress throttle\<close>











lemma InstallPkgReceive_progress_same_time:
  assumes "cb_set w CB_ProgressPackage" and "ip_last_reported_time r = t"
    and "InstallPkgReceive_progress z t v r w = (res, r', w')"
  shows "cb_set w' CB_ProgressPackage \<and> ip_last_reported_time r' = t \<and>
         (if 5 <=s v - ip_last_reported r \<or> 5 <=s ip_last_reported r - v \<or> v = 100
          then ip_last_reported r' = v \<and>
               invocations CB_ProgressPackage w' = Suc (invocations CB_ProgressPackage w)
          else ip_last_reported r' = ip_last_reported r \<and>
               invocations CB_ProgressPackage w' = invocations CB_ProgressPackage w)"
proof -
  have nt: "\<not> callback_timeout <=s t - t"
    by (simp add: callback_timeout_def word_sle_eq)
  obtain b w1 where e: "evaluateBool CB_ProgressPackage [YCPInteger (sint v)] False w = (b, w1)"
    by (cases "evaluateBool CB_ProgressPackage [YCPInteger (sint v)] False w")
  have ev: "evaluated w1 = evaluated w @ [(CB_ProgressPackage, [YCPInteger (sint v)])]"
    using evaluateBool_evaluated [OF assms(1), of "[YCPInteger (sint v)]" False] e by simp
  have cb: "ycpcb w1 = ycpcb w"
    using evaluateBool_ycpcb [of CB_ProgressPackage "[YCPInteger (sint v)]" False w] e by simp
  show ?thesis
    using assms nt e cb invocations_append [OF ev]
    by (auto simp add: InstallPkgReceive_progress_def log_line_def cb_set_def invocations_def
             split: if_splits)
qed

lemma progress_stream_count:
  assumes "cb_set w CB_ProgressPackage" and "ip_last_reported_time r = t"
  shows "invocations CB_ProgressPackage (snd (progress_stream z t vs r w)) =
           invocations CB_ProgressPackage w + length (reports (ip_last_reported r) vs)"
  using assms
proof (induction vs arbitrary: r w)
  case Nil
  then show ?case by simp
next
  case (Cons v vs)
  obtain res r' w' where step: "InstallPkgReceive_progress z t v r w = (res, r', w')"
    by (cases "InstallPkgReceive_progress z t v r w")
  note s = InstallPkgReceive_progress_same_time [OF Cons.prems(1) Cons.prems(2) step]
  have ih: "invocations CB_ProgressPackage (snd (progress_stream z t vs r' w')) =
           invocations CB_ProgressPackage w' + length (reports (ip_last_reported r') vs)"
    using Cons.IH [of w' r'] s by simp
  show ?case
    using s ih step by (simp split: if_splits)
qed

lemma reports_0_to_100:
  "reports 0 (map word_of_nat [0..<101]) = map word_of_nat [5, 10, 15, 20, 25, 30, 35, 40, 45, 50, 55, 60, 65, 70, 75, 80, 85, 90, 95, 100]"
  by (simp add: upt_rec word_sle_eq)

lemma evaluate_other:
  "cb' \<noteq> cb \<Longrightarrow> invocations cb (snd (evaluate cb' args w)) = invocations cb w"
  by (simp add: evaluate_def invocations_def split: option.splits)

lemma evaluate_ycpcb: "ycpcb (snd (evaluate cb args w)) = ycpcb w"
  by (simp add: evaluate_def split: option.splits)

lemma InstallPkgReceive_start_throttle:
  assumes "InstallPkgReceive_start logFindAlias t resolvable r p w = Some (r1, p1, w1)"
  shows "ip_last_reported r1 = 0 \<and> ip_last_reported_time r1 = t \<and> ycpcb w1 = ycpcb w \<and>
         invocations CB_ProgressPackage w1 = invocations CB_ProgressPackage w"
  using assms
  by (auto simp add: InstallPkgReceive_start_def Let_def evaluate_other evaluate_ycpcb cb_set_def
           split: if_splits)

lemma install_stream_count:
  assumes "cb_set w CB_ProgressPackage"
    and "InstallPkgReceive_start logFindAlias t resolvable r p w = Some (r1, p1, w1)"
  shows "install_stream logFindAlias z t resolvable (map word_of_nat [0..<101]) r p w =
           Some (invocations CB_ProgressPackage w + 20)"
proof -
  note s = InstallPkgReceive_start_throttle [OF assms(2)]
  have c: "cb_set w1 CB_ProgressPackage"
    using assms(1) s by (simp add: cb_set_def)
  have "invocations CB_ProgressPackage (snd (progress_stream z t (map word_of_nat [0..<101]) r1 w1))
          = invocations CB_ProgressPackage w1 + length (reports (ip_last_reported r1) (map word_of_nat [0..<101]))"
    using progress_stream_count [OF c, of r1 t z] s by simp
  also have "\<dots> = invocations CB_ProgressPackage w + 20"
    using s by (simp only: reports_0_to_100) simp
  finally show ?thesis
    using assms(2) by (simp add: install_stream_def)
qed

lemma InstallPkgReceive_progress_same_time_calls:
  assumes "cb_set w CB_ProgressPackage" and "ip_last_reported_time r = t"
    and "InstallPkgReceive_progress z t v r w = (res, r', w')"
  shows "evaluated w' = evaluated w @
           (if 5 <=s v - ip_last_reported r \<or> 5 <=s ip_last_reported r - v \<or> v = 100
            then [(CB_ProgressPackage, [YCPInteger (sint v)])] else [])"
proof -
  have nt: "\<not> callback_timeout <=s t - t"
    by (simp add: callback_timeout_def word_sle_eq)
  obtain b w1 where e: "evaluateBool CB_ProgressPackage [YCPInteger (sint v)] False w = (b, w1)"
    by (cases "evaluateBool CB_ProgressPackage [YCPInteger (sint v)] False w")
  have ev: "evaluated w1 = evaluated w @ [(CB_ProgressPackage, [YCPInteger (sint v)])]"
    using evaluateBool_evaluated [OF assms(1), of "[YCPInteger (sint v)]" False] e by simp
  show ?thesis
    using assms nt e ev
    by (auto simp add: InstallPkgReceive_progress_def log_line_def split: if_splits)
qed

lemma progress_stream_calls:
  assumes "cb_set w CB_ProgressPackage" and "ip_last_reported_time r = t"
  shows "evaluated (snd (progress_stream z t vs r w)) =
           evaluated w @
           map (\<lambda>v. (CB_ProgressPackage, [YCPInteger (sint v)])) (reports (ip_last_reported r) vs)"
  using assms
proof (induction vs arbitrary: r w)
  case Nil
  then show ?case by simp
next
  case (Cons v vs)
  obtain res r' w' where step: "InstallPkgReceive_progress z t v r w = (res, r', w')"
    by (cases "InstallPkgReceive_progress z t v r w")
  note s = InstallPkgReceive_progress_same_time [OF Cons.prems(1) Cons.prems(2) step]
  note c = InstallPkgReceive_progress_same_time_calls [OF Cons.prems(1) Cons.prems(2) step]
  have ih: "evaluated (snd (progress_stream z t vs r' w')) =
           evaluated w' @
           map (\<lambda>v. (CB_ProgressPackage, [YCPInteger (sint v)])) (reports (ip_last_reported r') vs)"
    using Cons.IH [of w' r'] s by simp
  show ?case
    using s c ih step by (simp split: if_splits)
qed

lemma install_stream_calls_values:
  assumes "cb_set w CB_ProgressPackage"
    and "InstallPkgReceive_start logFindAlias t resolvable r p w = Some (r1, p1, w1)"
  shows "install_stream_calls logFindAlias z t resolvable (map word_of_nat [0..<101]) r p w =
           Some (map (\<lambda>v. (CB_ProgressPackage, [YCPInteger v]))
                   [5, 10, 15, 20, 25, 30, 35, 40, 45, 50, 55, 60, 65, 70, 75, 80, 85, 90, 95,
                    100])"
proof -
  note s = InstallPkgReceive_start_throttle [OF assms(2)]
  have c: "cb_set w1 CB_ProgressPackage"
    using assms(1) s by (simp add: cb_set_def)
  have "evaluated (snd (progress_stream z t (map word_of_nat [0..<101]) r1 w1)) =
          evaluated w1 @
          map (\<lambda>v. (CB_ProgressPackage, [YCPInteger (sint v)]))
            (reports (ip_last_reported r1) (map word_of_nat [0..<101]))"
    using progress_stream_calls [OF c, of r1 t z] s by simp
  also have "reports (ip_last_reported r1) (map word_of_nat [0..<101]) =
      map word_of_nat [5, 10, 15, 20, 25, 30, 35, 40, 45, 50, 55, 60, 65, 70, 75, 80, 85, 90, 95,
                       100]"
    using s by (simp only: reports_0_to_100)
  finally show ?thesis
    using assms(2) by (simp add: install_stream_calls_def)
qed

text \<open>
  C8. A package is started at time \<open>t\<close>, which sets the value reported last to 0, and the
  values 0, 1, ..., 100 are delivered while the clock stays at \<open>t\<close>, with the progress
  handler registered. The handler is called exactly 20 times, and the calls made while
  the values are delivered are those of the progress handler with 5, 10, ..., 100, in this
  order. The first value 0 is not reported, since it does not differ from the initial 0,
  and the report at 100 is the last of the steps of 5.
\<close>

theorem monotonic_stream_count:
  assumes "cb_set w CB_ProgressPackage"
    and "InstallPkgReceive_start logFindAlias t resolvable r p w \<noteq> None"
  shows "install_stream logFindAlias z t resolvable (map word_of_nat [0..<101]) r p w =
           Some (invocations CB_ProgressPackage w + 20) \<and>
         install_stream_calls logFindAlias z t resolvable (map word_of_nat [0..<101]) r p w =
           Some (map (\<lambda>v. (CB_ProgressPackage, [YCPInteger v]))
                   [5, 10, 15, 20, 25, 30, 35, 40, 45, 50, 55, 60, 65, 70, 75, 80, 85, 90, 95,
                    100])"
proof -
  obtain r1 p1 w1 where
    st: "InstallPkgReceive_start logFindAlias t resolvable r p w = Some (r1, p1, w1)"
    using assms(2) by fastforce
  show ?thesis
    using install_stream_count [OF assms(1) st, of z]
          install_stream_calls_values [OF assms(1) st, of z]
    by simp
qed

theorem monotonic_stream_count_witness:
  "cb_set (example_world MEDIA_CHANGE_FULL) CB_ProgressPackage \<and>
   InstallPkgReceive_start (\<lambda>alias. 0) 1000 example_resolvable example_install
     \<lparr>last_reported_repo = - 1, last_reported_mediumnr = 1\<rparr> (example_world MEDIA_CHANGE_FULL)
     \<noteq> None \<and>
   install_stream (\<lambda>alias. 0) example_zypp 1000 example_resolvable (map word_of_nat [0..<101])
     example_install \<lparr>last_reported_repo = - 1, last_reported_mediumnr = 1\<rparr>
     (example_world MEDIA_CHANGE_FULL) = Some 20 \<and>
   install_stream_calls (\<lambda>alias. 0) example_zypp 1000 example_resolvable
     (map word_of_nat [0..<101]) example_install
     \<lparr>last_reported_repo = - 1, last_reported_mediumnr = 1\<rparr>
     (example_world MEDIA_CHANGE_FULL) =
       Some [(CB_ProgressPackage, [YCPInteger 5]), (CB_ProgressPackage, [YCPInteger 10]),
             (CB_ProgressPackage, [YCPInteger 15]), (CB_ProgressPackage, [YCPInteger 20]),
             (CB_ProgressPackage, [YCPInteger 25]), (CB_ProgressPackage, [YCPInteger 30]),
             (CB_ProgressPackage, [YCPInteger 35]), (CB_ProgressPackage, [YCPInteger 40]),
             (CB_ProgressPackage, [YCPInteger 45]), (CB_ProgressPackage, [YCPInteger 50]),
             (CB_ProgressPackage, [YCPInteger 55]), (CB_ProgressPackage, [YCPInteger 60]),
             (CB_ProgressPackage, [YCPInteger 65]), (CB_ProgressPackage, [YCPInteger 70]),
             (CB_ProgressPackage, [YCPInteger 75]), (CB_ProgressPackage, [YCPInteger 80]),
             (CB_ProgressPackage, [YCPInteger 85]), (CB_ProgressPackage, [YCPInteger 90]),
             (CB_ProgressPackage, [YCPInteger 95]), (CB_ProgressPackage, [YCPInteger 100])]"
proof -
  have st: "InstallPkgReceive_start (\<lambda>alias. 0) 1000 example_resolvable example_install
     \<lparr>last_reported_repo = - 1, last_reported_mediumnr = 1\<rparr> (example_world MEDIA_CHANGE_FULL)
     \<noteq> None"
    by (simp add: InstallPkgReceive_start_def example_install_def example_resolvable_def)
  have "invocations CB_ProgressPackage (example_world MEDIA_CHANGE_FULL) = 0"
    by (simp add: invocations_def example_world_def)
  with monotonic_stream_count [OF cb_set_example st, of example_zypp] st cb_set_example
  show ?thesis by simp
qed

text \<open>
  The count the claim names, 100 / 5 + 1 = 21, is not reached on such a stream.
\<close>

theorem monotonic_stream_count_counterexample:
  "install_stream (\<lambda>alias. 0) example_zypp 1000 example_resolvable (map word_of_nat [0..<101])
     example_install \<lparr>last_reported_repo = - 1, last_reported_mediumnr = 1\<rparr>
     (example_world MEDIA_CHANGE_FULL) \<noteq> Some 21"
proof -
  have "InstallPkgReceive_start (\<lambda>alias. 0) 1000 example_resolvable example_install
     \<lparr>last_reported_repo = - 1, last_reported_mediumnr = 1\<rparr> (example_world MEDIA_CHANGE_FULL)
     \<noteq> None"
    by (simp add: InstallPkgReceive_start_def example_install_def example_resolvable_def)
  then obtain r1 p1 w1 where "InstallPkgReceive_start (\<lambda>alias. 0) 1000 example_resolvable example_install
     \<lparr>last_reported_repo = - 1, last_reported_mediumnr = 1\<rparr> (example_world MEDIA_CHANGE_FULL)
     = Some (r1, p1, w1)" by fastforce
  from install_stream_count [OF cb_set_example this, of example_zypp]
  show ?thesis by (simp add: invocations_def example_world_def)
qed

section \<open>Source probing and media redirection\<close>

lemma evaluateStr_evaluated:
  "cb_set w cb \<Longrightarrow>
     evaluated (snd (evaluateStr cb args w)) = evaluated w @ [(cb, args)]"
  by (auto simp add: evaluateStr_def evaluate_def cb_set_def
           split: option.splits YCPValue.splits)

lemma evaluateStr_fields:
  "silent_probing (snd (evaluateStr cb args w)) = silent_probing w \<and>
   redirect_map (snd (evaluateStr cb args w)) = redirect_map w \<and>
   y2log (snd (evaluateStr cb args w)) = y2log w \<and>
   ycpcb (snd (evaluateStr cb args w)) = ycpcb w"
  by (auto simp add: evaluateStr_def evaluate_def split: option.splits YCPValue.splits)

lemma evaluateStr_reply:
  "ycpcb w cb = Some (\<lambda>args. YCPString ret) \<Longrightarrow> fst (evaluateStr cb args w) = ret"
  by (simp add: evaluateStr_def evaluate_def)

lemma requestMedia_invokes:
  assumes "silent_probing w = MEDIA_CHANGE_FULL" and "cb_set w CB_MediaChange"
  shows "invocations CB_MediaChange
           (snd (requestMedia z url mediumNr label error description devices dev_current w)) =
         Suc (invocations CB_MediaChange w)"
proof -
  define found where "found = (case redirect_map w url of None \<Rightarrow> None | Some source \<Rightarrow> source mediumNr)"
  define w0 where "w0 = (case found of None \<Rightarrow> w
       | Some u \<Rightarrow> log_line y2milestone ''Using redirected URL %s, original URL: %s''
                                [YCPString u, YCPString url] w)"
  define args where "args = [YCPString description, YCPString (case found of None \<Rightarrow> url | Some u \<Rightarrow> u),
                  YCPString label, YCPInteger 0,
                  YCPString [], YCPInteger (uint mediumNr), YCPString [], YCPBoolean False]"
  obtain ret w1 where e: "evaluateStr CB_MediaChange args w0 = (ret, w1)"
    by (cases "evaluateStr CB_MediaChange args w0")
  have w0: "cb_set w0 CB_MediaChange" "evaluated w0 = evaluated w"
    using assms(2) by (auto simp add: w0_def log_line_def cb_set_def split: option.splits)
  have "evaluated w1 = evaluated w @ [(CB_MediaChange, args)]"
    using evaluateStr_evaluated [OF w0(1), of args] e w0(2) by simp
  then have i: "invocations CB_MediaChange w1 = Suc (invocations CB_MediaChange w)"
    by (rule invocations_append)
  show ?thesis
    using assms e i
    unfolding requestMedia_def Let_def found_def [symmetric] w0_def [symmetric] args_def [symmetric]
    by (auto simp add: log_line_def invocations_def split: option.splits)
qed

text \<open>
  C10. The start of a source probe sets \<^verbatim>\<open>_silent_probing\<close> to DISABLE; the finish sets it
  to FULL whatever it was, so also after a probe that began in another mode. After a
  finish, a media-change request with a registered handler does call the handler.
\<close>

theorem probe_finish_restores_full:
  "silent_probing (ProbeSourceReceive_start url w) = MEDIA_CHANGE_DISABLE \<and>
   silent_probing (ProbeSourceReceive_finish url' error reason w') = MEDIA_CHANGE_FULL \<and>
   silent_probing (ProbeSourceReceive_finish url' error reason (ProbeSourceReceive_start url w))
     = MEDIA_CHANGE_FULL \<and>
   (cb_set w' CB_MediaChange \<longrightarrow>
      invocations CB_MediaChange
        (snd (requestMedia z murl mediumNr label merror description devices dev_current
                (ProbeSourceReceive_finish url' error reason w'))) =
      Suc (invocations CB_MediaChange (ProbeSourceReceive_finish url' error reason w')))"
proof -
  have f: "silent_probing (ProbeSourceReceive_finish url' error reason w) = MEDIA_CHANGE_FULL"
    for w
    by (simp add: ProbeSourceReceive_finish_def Let_def evaluate_def split: option.splits)
  have s: "silent_probing (ProbeSourceReceive_start url w) = MEDIA_CHANGE_DISABLE"
    by (simp add: ProbeSourceReceive_start_def Let_def evaluate_def split: option.splits)
  have c: "cb_set (ProbeSourceReceive_finish url' error reason w') CB_MediaChange"
    if "cb_set w' CB_MediaChange"
    using that
    by (simp add: ProbeSourceReceive_finish_def Let_def evaluate_def cb_set_def
             split: option.splits)
  show ?thesis
    using f s c requestMedia_invokes [OF f] by blast
qed

theorem probe_finish_restores_full_witness:
  "silent_probing (ProbeSourceReceive_start ''cd:///'' (example_world MEDIA_CHANGE_OPTIONALFILE))
     = MEDIA_CHANGE_DISABLE \<and>
   silent_probing (ProbeSourceReceive_finish ''cd:///'' Probe_NOT_FOUND ''no repository''
     (ProbeSourceReceive_start ''cd:///'' (example_world MEDIA_CHANGE_OPTIONALFILE)))
     = MEDIA_CHANGE_FULL \<and>
   cb_set (example_world MEDIA_CHANGE_OPTIONALFILE) CB_MediaChange \<and>
   invocations CB_MediaChange
     (snd (requestMedia example_zypp ''cd:///'' 1 ''SLES'' MC_NOT_FOUND ''no such file'' [] 0
             (ProbeSourceReceive_finish ''cd:///'' Probe_NOT_FOUND ''no repository''
                (example_world MEDIA_CHANGE_OPTIONALFILE)))) = 1"
proof -
  have "invocations CB_MediaChange (ProbeSourceReceive_finish ''cd:///'' Probe_NOT_FOUND
          ''no repository'' (example_world MEDIA_CHANGE_OPTIONALFILE)) = 0"
    by (simp add: ProbeSourceReceive_finish_def Let_def evaluate_def invocations_def
          example_world_def example_handlers_def)
  with probe_finish_restores_full [of "''cd:///''" "example_world MEDIA_CHANGE_OPTIONALFILE"
         "''cd:///''" Probe_NOT_FOUND "''no repository''"
         "example_world MEDIA_CHANGE_OPTIONALFILE" example_zypp "''cd:///''" 1 "''SLES''"
         MC_NOT_FOUND "''no such file''" "[]" 0]
       cb_set_example [of MEDIA_CHANGE_OPTIONALFILE CB_MediaChange]
  show ?thesis by simp
qed

text \<open>
  C1. The handler is registered, prompting is not suppressed, and the reply is none of
  the tokens the function tests for (empty, I, C, E, E followed by more, S). When the
  engine accepts the reply as a URL, the function returns CHANGE_URL with the parsed URL.
  The redirection it stores is keyed by the parsed URL itself, since \<^verbatim>\<open>url\<close> has been
  overwritten before it is used as the key: the entry for the original URL is left as it
  was, and the new entry maps the parsed URL and the medium to the parsed URL.
\<close>

theorem requestMedia_redirect_key:
  assumes "silent_probing w = MEDIA_CHANGE_FULL"
    and "ycpcb w CB_MediaChange = Some (\<lambda>args. YCPString ret)"
    and "ret \<notin> {[], ''I'', ''C'', ''E'', ''S''}" and "hd ret \<noteq> CHR ''E''"
    and "Url_ctor z ret = Some new_url" and "new_url \<noteq> url"
  shows "case requestMedia z url mediumNr label error description devices dev_current w of
           ((action, url', dev'), w') \<Rightarrow>
              action = MediaChange_CHANGE_URL \<and> url' = new_url \<and>
              redirect_map w' url = redirect_map w url \<and>
              (case redirect_map w' new_url of
                 None \<Rightarrow> False
               | Some source \<Rightarrow> source mediumNr = Some new_url)"
  using assms
  by (auto simp add: requestMedia_def Let_def cb_set_def evaluateStr_def evaluate_def log_line_def
           split: option.splits)

theorem requestMedia_redirect_key_witness:
  "case requestMedia example_zypp ''cd:///'' 1 ''SLES'' MC_WRONG ''wrong medium'' [] 0
          (example_world MEDIA_CHANGE_FULL) of
     ((action, url', dev'), w') \<Rightarrow>
        action = MediaChange_CHANGE_URL \<and> url' = ''http://example.com/repo'' \<and>
        redirect_map w' ''cd:///'' = None \<and>
        (case redirect_map w' ''http://example.com/repo'' of
           None \<Rightarrow> False
         | Some source \<Rightarrow> source 1 = Some ''http://example.com/repo'')"
proof -
  have h: "ycpcb (example_world MEDIA_CHANGE_FULL) CB_MediaChange =
             Some (\<lambda>args. YCPString ''http://example.com/repo'')"
    by (simp add: example_world_def example_handlers_def)
  have u: "Url_ctor example_zypp ''http://example.com/repo'' = Some ''http://example.com/repo''"
    by (simp add: example_zypp_def)
  have m: "redirect_map (example_world MEDIA_CHANGE_FULL) ''cd:///'' = None"
       "silent_probing (example_world MEDIA_CHANGE_FULL) = MEDIA_CHANGE_FULL"
    by (simp_all add: example_world_def)
  from requestMedia_redirect_key [OF m(2) h _ _ u, of "''cd:///''" 1 "''SLES''" MC_WRONG
         "''wrong medium''" "[]" 0] m(1)
  show ?thesis by (auto split: prod.splits)
qed

section \<open>Neutralising resolvables\<close>

lemma neutral_item_effect:
  "item_kind it = kind \<Longrightarrow>
   neutral_effect kind name force it (fst (neutral_item name force it ret))"
  by (cases "transactBy (item_status it)")
     (auto simp add: neutral_effect_def neutral_item_def resetTransact_def whoWantsIt_def Let_def
           split: prod.splits if_splits)

lemma neutral_loop_effect:
  "list_all2 (neutral_effect kind name force) items
     (fst (neutral_loop kind name force items ret))"
proof (induction items arbitrary: ret)
  case Nil
  then show ?case by simp
next
  case (Cons it items)
  show ?case
  proof (cases "item_kind it = kind")
    case True
    obtain it' ret' where n: "neutral_item name force it ret = (it', ret')"
      by (cases "neutral_item name force it ret")
    have "neutral_effect kind name force it it'"
      using neutral_item_effect [OF True, of name force ret] n by simp
    with True n Cons.IH [of ret'] show ?thesis
      by (simp add: case_prod_beta)
  next
    case False
    then have "neutral_effect kind name force it it"
      by (simp add: neutral_effect_def)
    with False Cons.IH [of ret] show ?thesis
      by (simp add: case_prod_beta)
  qed
qed

text \<open>
  C7. \<^verbatim>\<open>ResolvableNeutral\<close> with a valid kind symbol goes through the pool and, for every
  item of that kind whose name matches (every item of the kind when the name is empty),
  resets the transact flag at the authority \<^verbatim>\<open>whoWantsIt\<close>, and with force also at USER.
  With the engine's reset as the specification describes it: without force a mark set by
  USER survives and every other mark is cleared; with force every mark is cleared. Items
  of other kinds or names are not touched.
\<close>

theorem ResolvableNeutral_authority:
  assumes "kind_of_symbol kind_r = Some kind"
  shows "case ResolvableNeutral name_r kind_r force (Some items) w of
           (ret, pool', w') \<Rightarrow>
             (case pool' of
                None \<Rightarrow> False
              | Some items' \<Rightarrow> list_all2 (neutral_effect kind name_r force) items items')"
  using assms neutral_loop_effect [of kind name_r force items True]
  by (simp add: ResolvableNeutral_def case_prod_beta)

theorem ResolvableNeutral_authority_witness:
  "kind_of_symbol ''package'' = Some Kind_package \<and>
   (case ResolvableNeutral ''vim'' ''package'' False (Some example_pool)
           (example_world MEDIA_CHANGE_FULL) of
      (ret, pool', w') \<Rightarrow>
        (case pool' of
           None \<Rightarrow> False
         | Some items' \<Rightarrow> list_all2 (neutral_effect Kind_package ''vim'' False) example_pool items')) \<and>
   fst (snd (ResolvableNeutral ''vim'' ''package'' False (Some example_pool)
           (example_world MEDIA_CHANGE_FULL))) =
     Some [\<lparr>item_kind = Kind_package, item_name = ''vim'',
             item_status = \<lparr>transacts = True, transactBy = USER\<rparr>\<rparr>,
           \<lparr>item_kind = Kind_package, item_name = ''vim'',
             item_status = \<lparr>transacts = False, transactBy = APPL_HIGH\<rparr>\<rparr>,
           \<lparr>item_kind = Kind_package, item_name = ''emacs'',
             item_status = \<lparr>transacts = True, transactBy = APPL_HIGH\<rparr>\<rparr>,
           \<lparr>item_kind = Kind_pattern, item_name = ''vim'',
             item_status = \<lparr>transacts = True, transactBy = SOLVER\<rparr>\<rparr>] \<and>
   fst (snd (ResolvableNeutral ''vim'' ''package'' True (Some example_pool)
           (example_world MEDIA_CHANGE_FULL))) =
     Some [\<lparr>item_kind = Kind_package, item_name = ''vim'',
             item_status = \<lparr>transacts = False, transactBy = USER\<rparr>\<rparr>,
           \<lparr>item_kind = Kind_package, item_name = ''vim'',
             item_status = \<lparr>transacts = False, transactBy = APPL_HIGH\<rparr>\<rparr>,
           \<lparr>item_kind = Kind_package, item_name = ''emacs'',
             item_status = \<lparr>transacts = True, transactBy = APPL_HIGH\<rparr>\<rparr>,
           \<lparr>item_kind = Kind_pattern, item_name = ''vim'',
             item_status = \<lparr>transacts = True, transactBy = SOLVER\<rparr>\<rparr>]"
proof -
  have k: "kind_of_symbol ''package'' = Some Kind_package"
    by (simp add: kind_of_symbol_def)
  have e: "fst (snd (ResolvableNeutral ''vim'' ''package'' force (Some example_pool)
           (example_world MEDIA_CHANGE_FULL))) =
        Some (fst (neutral_loop Kind_package ''vim'' force example_pool True))" for force
    by (simp add: ResolvableNeutral_def k case_prod_beta)
  have l: "fst (neutral_loop Kind_package ''vim'' False example_pool True) =
     [\<lparr>item_kind = Kind_package, item_name = ''vim'',
             item_status = \<lparr>transacts = True, transactBy = USER\<rparr>\<rparr>,
           \<lparr>item_kind = Kind_package, item_name = ''vim'',
             item_status = \<lparr>transacts = False, transactBy = APPL_HIGH\<rparr>\<rparr>,
           \<lparr>item_kind = Kind_package, item_name = ''emacs'',
             item_status = \<lparr>transacts = True, transactBy = APPL_HIGH\<rparr>\<rparr>,
           \<lparr>item_kind = Kind_pattern, item_name = ''vim'',
             item_status = \<lparr>transacts = True, transactBy = SOLVER\<rparr>\<rparr>]"
    by (simp add: example_pool_def neutral_item_def resetTransact_def whoWantsIt_def)
  have m: "fst (neutral_loop Kind_package ''vim'' True example_pool True) =
     [\<lparr>item_kind = Kind_package, item_name = ''vim'',
             item_status = \<lparr>transacts = False, transactBy = USER\<rparr>\<rparr>,
           \<lparr>item_kind = Kind_package, item_name = ''vim'',
             item_status = \<lparr>transacts = False, transactBy = APPL_HIGH\<rparr>\<rparr>,
           \<lparr>item_kind = Kind_package, item_name = ''emacs'',
             item_status = \<lparr>transacts = True, transactBy = APPL_HIGH\<rparr>\<rparr>,
           \<lparr>item_kind = Kind_pattern, item_name = ''vim'',
             item_status = \<lparr>transacts = True, transactBy = SOLVER\<rparr>\<rparr>]"
    by (simp add: example_pool_def neutral_item_def resetTransact_def whoWantsIt_def)
  from ResolvableNeutral_authority [OF k, of "''vim''" False example_pool
         "example_world MEDIA_CHANGE_FULL"] k e l m
  show ?thesis by (simp add: case_prod_beta)
qed

section \<open>Replies that are not a token\<close>

lemma evaluateSymbol_fields:
  "y2log (snd (evaluateSymbol cb args w)) = y2log w"
  by (auto simp add: evaluateSymbol_def evaluate_def split: option.splits YCPValue.splits)

text \<open>
  C6. What each problem adapter does with a reply that is none of its tokens, the
  handler being registered. Package install (at the forced level, the only one that
  reaches the handler) and package remove return IGNORE and write no log line. The
  download of a resolvable returns the default of the parent report and writes no log line.
  The generic download returns the default of its parent report; the reply is in the
  milestone line it writes for every reply. Script execution and source creation return
  the default of the parent report and write an error line with the reply.
\<close>

theorem unrecognized_reply_fallback:
  "(cb_set w CB_DonePackage \<and>
    fst (evaluateStr CB_DonePackage [YCPInteger (ReportError_code error), YCPString description] w)
      \<notin> {''R'', ''C''} \<longrightarrow>
      (case InstallPkgReceive_problem z error description RPM_NODEPS_FORCE r w of
         (action, r', w') \<Rightarrow> action = IGNORE \<and> y2log w' = y2log w) \<and>
      (case RemovePkgReceive_problem z error description w of
         (action, w') \<Rightarrow> action = IGNORE \<and> y2log w' = y2log w)) \<and>
   (cb_set w CB_DoneProvide \<and>
    fst (evaluateStr CB_DoneProvide
           [YCPInteger (ReportError_code error), YCPString description, YCPString name] w)
      \<notin> {''R'', ''C'', ''I''} \<longrightarrow>
      (case DownloadResolvableReceive_problem z name error description w of
         (action, w') \<Rightarrow> action = DownloadResolvableReport_problem z \<and> y2log w' = y2log w)) \<and>
   (cb_set w CB_DoneProvide \<and>
    fst (evaluateStr CB_DoneProvide
           [YCPInteger (DownloadError_code derror), YCPString description, YCPString fileurl] w)
      \<notin> {''R'', ''C'', ''I''} \<longrightarrow>
      (case DownloadProgressReceive_problem z fileurl derror description w of
         (action, w') \<Rightarrow>
           action = DownloadProgressReport_problem z \<and>
           y2log w' = y2log w @
             [(y2milestone, ''DoneProvide result: %s'',
               [YCPString (fst (evaluateStr CB_DoneProvide
                  [YCPInteger (DownloadError_code derror), YCPString description,
                   YCPString fileurl] w))])])) \<and>
   (cb_set w CB_ScriptProblem \<and>
    fst (evaluateStr CB_ScriptProblem [YCPString description] w) \<notin> {''A'', ''I'', ''R''} \<longrightarrow>
      (case ScriptExecReceive_problem z description w of
         (action, w') \<Rightarrow>
           action = PatchScriptReport_problem z \<and>
           y2log w' = y2log w @
             [(y2error, ''Unknown return value: %s'',
               [YCPString (fst (evaluateStr CB_ScriptProblem [YCPString description] w))])])) \<and>
   (cb_set w CB_SourceCreateError \<and>
    fst (evaluateSymbol CB_SourceCreateError
           [YCPString url, YCPString (CreateSrcErrorAsString cerror), YCPString description] w)
      \<notin> {''ABORT'', ''RETRY''} \<longrightarrow>
      (case SourceCreateReceive_problem z url cerror description w of
         (action, w') \<Rightarrow>
           action = RepoCreateReport_problem z \<and>
           y2log w' = y2log w @
             [(y2error, ''Unexpected symbol '%s' returned from callback.'',
               [YCPString (fst (evaluateSymbol CB_SourceCreateError
                  [YCPString url, YCPString (CreateSrcErrorAsString cerror),
                   YCPString description] w))])]))"
proof -
  have install: "case InstallPkgReceive_problem z error description RPM_NODEPS_FORCE r w of
         (action, r', w') \<Rightarrow> action = IGNORE \<and> y2log w' = y2log w"
    if "cb_set w CB_DonePackage"
      "fst (evaluateStr CB_DonePackage [YCPInteger (ReportError_code error), YCPString description] w)
         \<notin> {''R'', ''C''}"
    using that evaluateStr_fields [of CB_DonePackage
             "[YCPInteger (ReportError_code error), YCPString description]" w]
    by (auto simp add: InstallPkgReceive_problem_def Let_def split: prod.splits)
  have remove: "case RemovePkgReceive_problem z error description w of
         (action, w') \<Rightarrow> action = IGNORE \<and> y2log w' = y2log w"
    if "cb_set w CB_DonePackage"
      "fst (evaluateStr CB_DonePackage [YCPInteger (ReportError_code error), YCPString description] w)
         \<notin> {''R'', ''C''}"
    using that evaluateStr_fields [of CB_DonePackage
             "[YCPInteger (ReportError_code error), YCPString description]" w]
    by (auto simp add: RemovePkgReceive_problem_def Let_def split: prod.splits)
  have dres: "case DownloadResolvableReceive_problem z name error description w of
         (action, w') \<Rightarrow> action = DownloadResolvableReport_problem z \<and> y2log w' = y2log w"
    if "cb_set w CB_DoneProvide"
      "fst (evaluateStr CB_DoneProvide
           [YCPInteger (ReportError_code error), YCPString description, YCPString name] w)
      \<notin> {''R'', ''C'', ''I''}"
    using that evaluateStr_fields [of CB_DoneProvide
             "[YCPInteger (ReportError_code error), YCPString description, YCPString name]" w]
    by (auto simp add: DownloadResolvableReceive_problem_def Let_def split: prod.splits)
  have dprog: "case DownloadProgressReceive_problem z fileurl derror description w of
         (action, w') \<Rightarrow>
           action = DownloadProgressReport_problem z \<and>
           y2log w' = y2log w @
             [(y2milestone, ''DoneProvide result: %s'',
               [YCPString (fst (evaluateStr CB_DoneProvide
                  [YCPInteger (DownloadError_code derror), YCPString description,
                   YCPString fileurl] w))])]"
    if "cb_set w CB_DoneProvide"
      "fst (evaluateStr CB_DoneProvide
           [YCPInteger (DownloadError_code derror), YCPString description, YCPString fileurl] w)
      \<notin> {''R'', ''C'', ''I''}"
    using that evaluateStr_fields [of CB_DoneProvide
             "[YCPInteger (DownloadError_code derror), YCPString description, YCPString fileurl]" w]
    by (auto simp add: DownloadProgressReceive_problem_def Let_def log_line_def split: prod.splits)
  have script: "case ScriptExecReceive_problem z description w of
         (action, w') \<Rightarrow>
           action = PatchScriptReport_problem z \<and>
           y2log w' = y2log w @
             [(y2error, ''Unknown return value: %s'',
               [YCPString (fst (evaluateStr CB_ScriptProblem [YCPString description] w))])]"
    if "cb_set w CB_ScriptProblem"
      "fst (evaluateStr CB_ScriptProblem [YCPString description] w) \<notin> {''A'', ''I'', ''R''}"
    using that evaluateStr_fields [of CB_ScriptProblem "[YCPString description]" w]
    by (auto simp add: ScriptExecReceive_problem_def Let_def log_line_def split: prod.splits)
  have create: "case SourceCreateReceive_problem z url cerror description w of
         (action, w') \<Rightarrow>
           action = RepoCreateReport_problem z \<and>
           y2log w' = y2log w @
             [(y2error, ''Unexpected symbol '%s' returned from callback.'',
               [YCPString (fst (evaluateSymbol CB_SourceCreateError
                  [YCPString url, YCPString (CreateSrcErrorAsString cerror),
                   YCPString description] w))])]"
    if "cb_set w CB_SourceCreateError"
      "fst (evaluateSymbol CB_SourceCreateError
           [YCPString url, YCPString (CreateSrcErrorAsString cerror), YCPString description] w)
      \<notin> {''ABORT'', ''RETRY''}"
    using that evaluateSymbol_fields [of CB_SourceCreateError
             "[YCPString url, YCPString (CreateSrcErrorAsString cerror), YCPString description]" w]
    by (auto simp add: SourceCreateReceive_problem_def Let_def log_line_def split: prod.splits)
  show ?thesis
    by (intro conjI impI; elim conjE;
        (rule install remove dres dprog script create; assumption))
qed

theorem unrecognized_reply_fallback_witness:
  "cb_set (example_world MEDIA_CHANGE_FULL) CB_DonePackage \<and>
   fst (evaluateStr CB_DonePackage [YCPInteger (ReportError_code IO), YCPString ''conflict'']
          (example_world MEDIA_CHANGE_FULL)) = ''X'' \<and>
   fst (InstallPkgReceive_problem example_zypp IO ''conflict'' RPM_NODEPS_FORCE example_install
          (example_world MEDIA_CHANGE_FULL)) = IGNORE \<and>
   fst (RemovePkgReceive_problem example_zypp IO ''conflict'' (example_world MEDIA_CHANGE_FULL))
     = IGNORE \<and>
   DownloadResolvableReceive_problem example_zypp ''vim'' IO ''conflict''
     (example_world MEDIA_CHANGE_FULL) =
       (ABORT, (example_world MEDIA_CHANGE_FULL)
                 \<lparr>evaluated := [(CB_DoneProvide, [YCPInteger 2, YCPString ''conflict'',
                                                  YCPString ''vim''])]\<rparr>) \<and>
   y2log (snd (DownloadProgressReceive_problem example_zypp ''http://host/file'' DL_IO ''conflict''
                 (example_world MEDIA_CHANGE_FULL))) =
     [(y2milestone, ''DoneProvide result: %s'', [YCPString ''X''])] \<and>
   y2log (snd (ScriptExecReceive_problem example_zypp ''conflict''
                 (example_world MEDIA_CHANGE_FULL))) =
     [(y2error, ''Unknown return value: %s'', [YCPString ''X''])] \<and>
   y2log (snd (SourceCreateReceive_problem example_zypp ''cd:///'' Create_IO ''conflict''
                 (example_world MEDIA_CHANGE_FULL))) =
     [(y2error, ''Unexpected symbol '%s' returned from callback.'', [YCPString ''IGNORE''])]"
proof -
  let ?w = "example_world MEDIA_CHANGE_FULL"
  have s: "fst (evaluateStr cb args ?w) = ''X''"
    if "cb \<in> {CB_DonePackage, CB_DoneProvide, CB_ScriptProblem}" for cb args
    using that by (auto simp add: evaluateStr_def evaluate_def example_world_def example_handlers_def)
  have y: "fst (evaluateSymbol CB_SourceCreateError args ?w) = ''IGNORE''" for args
    by (simp add: evaluateSymbol_def evaluate_def example_world_def example_handlers_def)
  have l: "y2log ?w = []" "evaluated ?w = []"
    by (simp_all add: example_world_def)
  have d: "snd (DownloadResolvableReceive_problem example_zypp ''vim'' IO ''conflict'' ?w) =
             ?w\<lparr>evaluated := [(CB_DoneProvide, [YCPInteger 2, YCPString ''conflict'',
                                                  YCPString ''vim''])]\<rparr>"
    by (simp add: DownloadResolvableReceive_problem_def cb_set_def evaluateStr_def
          evaluate_def example_world_def example_handlers_def)
  have z: "DownloadResolvableReport_problem example_zypp = ABORT"
    by (simp add: example_zypp_def)
  from unrecognized_reply_fallback [of ?w IO "''conflict''" example_zypp example_install
         "''vim''" DL_IO "''http://host/file''" "''cd:///''" Create_IO]
       cb_set_example [of MEDIA_CHANGE_FULL] s y l d z
  show ?thesis
    by (auto simp add: case_prod_beta prod_eq_iff)
qed

text \<open>
  The install adapter on the reply X, with an engine whose default for install problems
  is ABORT: the action is not that default, and the log is as it was.
\<close>

theorem unrecognized_reply_fallback_counterexample:
  "fst (evaluateStr CB_DonePackage [YCPInteger (ReportError_code IO), YCPString ''conflict'']
          (example_world MEDIA_CHANGE_FULL)) = ''X'' \<and>
   fst (InstallPkgReceive_problem example_zypp IO ''conflict'' RPM_NODEPS_FORCE example_install
          (example_world MEDIA_CHANGE_FULL)) \<noteq> InstallResolvableReport_problem example_zypp \<and>
   y2log (snd (snd (InstallPkgReceive_problem example_zypp IO ''conflict'' RPM_NODEPS_FORCE
                      example_install (example_world MEDIA_CHANGE_FULL)))) =
     y2log (example_world MEDIA_CHANGE_FULL)"
  by (simp add: InstallPkgReceive_problem_def cb_set_def evaluateStr_def evaluate_def
        example_world_def example_handlers_def example_zypp_def)

section \<open>Committing\<close>

lemma effects_effect: "effects (effect e p) = effects p @ [e]"
  by (simp add: effect_def)

lemma CreateBaseProductSymlink_extends:
  "\<exists>es. effects (snd (CreateBaseProductSymlink Pathname_cat os p)) = effects p @ es"
  by (auto simp add: CreateBaseProductSymlink_def Let_def effects_effect
           split: option.splits Solvable.splits stat_result.splits sum.splits)

lemma pf_last_error_effect: "pf_last_error (effect e p) = pf_last_error p"
  by (simp add: effect_def)

lemma side_effects_log: "side_effects p1 (effect (Logged lvl fmt args) p1) = []"
  by (simp add: side_effects_def effect_def is_side_effect_def)

lemma side_effects_log_error:
  "side_effects p1 ((effect (Logged lvl fmt args) p1)\<lparr>pf_last_error := e\<rparr>) = []"
  by (simp add: side_effects_def effect_def is_side_effect_def)

lemma side_effects_release:
  "\<exists>es. side_effects p1 (snd (CreateBaseProductSymlink Pathname_cat os (SourceReleaseAll p1)))
          = SourceReleaseAll_called # es"
proof -
  obtain es where "effects (snd (CreateBaseProductSymlink Pathname_cat os (SourceReleaseAll p1)))
      = effects (SourceReleaseAll p1) @ es"
    using CreateBaseProductSymlink_extends by blast
  then show ?thesis
    by (simp add: side_effects_def SourceReleaseAll_def effect_def is_side_effect_def)
qed

text \<open>
  C5. \<^verbatim>\<open>PkgCommit\<close> with a valid media number, by the outcome of the engine's commit. On
  the abort exception the result is the list with the single element -1 and nothing is
  done to the outside after the engine returned: no release, no system call, and the last
  error is not set. On another exception of the engine the result is void, the message
  becomes the last error, and again nothing else is done. On a normal return the
  repositories are released first, then the base product link is attempted (the final
  state is the one that attempt leaves, whether it succeeded or not), and the result is
  the list of the four elements: result code, failed names, remaining items, remaining
  source names.
\<close>

theorem PkgCommit_outcomes:
  assumes "\<not> (word_of_int media :: 32 word) <s 0"
    and "commit (word_of_int media)
           (p\<lparr>pf_last_reported_repo := - 1, pf_last_reported_mediumnr := 1\<rparr>) = (outcome, p1)"
  shows "case PkgCommit commit Pathname_cat os media p of
           (ret, p') \<Rightarrow>
             (case outcome of
                TargetAbortedException \<Rightarrow>
                  ret = YCPList [YCPInteger (- 1)] \<and> side_effects p1 p' = [] \<and>
                  pf_last_error p' = pf_last_error p1
              | ZyppException excpt \<Rightarrow>
                  ret = YCPVoid \<and> pf_last_error p' = excpt \<and> side_effects p1 p' = []
              | Committed result \<Rightarrow>
                  p' = snd (CreateBaseProductSymlink Pathname_cat os (SourceReleaseAll p1)) \<and>
                  (\<exists>es. side_effects p1 p' = SourceReleaseAll_called # es) \<and>
                  ret = YCPList
                          [YCPInteger (sint (cr_result result)),
                           YCPList (map (\<lambda>it. YCPString (ci_name it)) (cr_errors result)),
                           YCPList (map remaining_map (cr_remaining result)),
                           YCPList (map (\<lambda>it. YCPString (ci_name it)) (cr_srcremaining result))])"
proof (cases outcome)
  case (Committed result)
  with assms side_effects_release [of p1 Pathname_cat os] show ?thesis
    by (simp add: PkgCommit_def Let_def case_prod_beta)
next
  case TargetAbortedException
  with assms show ?thesis
    by (simp add: PkgCommit_def Let_def side_effects_log pf_last_error_effect)
next
  case (ZyppException excpt)
  with assms show ?thesis
    by (simp add: PkgCommit_def Let_def side_effects_log_error)
qed

theorem PkgCommit_outcomes_witness:
  "\<not> (word_of_int 0 :: 32 word) <s 0 \<and>
   PkgCommit (example_commit TargetAbortedException) (@) example_os 0 example_pkg =
     (YCPList [YCPInteger (- 1)],
      example_pkg\<lparr>pf_last_reported_repo := - 1, pf_last_reported_mediumnr := 1,
                  effects := [Logged y2milestone ''Installation aborted by user'' []]\<rparr>) \<and>
   PkgCommit (example_commit (ZyppException ''rpm failed'')) (@) example_os 0 example_pkg =
     (YCPVoid,
      example_pkg\<lparr>pf_last_reported_repo := - 1, pf_last_reported_mediumnr := 1,
                  pf_last_error := ''rpm failed'',
                  effects := [Logged y2error ''Pkg::Commit has failed: ZYpp::commit has failed''
                                []]\<rparr>) \<and>
   fst (PkgCommit (example_commit (Committed example_result)) (@) example_os 0 example_pkg) =
     YCPList [YCPInteger 5, YCPList [YCPString ''vim''],
              YCPList [YCPMap [(''name'', YCPString ''base''), (''kind'', YCPSymbol ''pattern''),
                               (''arch'', YCPString ''noarch''),
                               (''version'', YCPString ''11.1'')]],
              YCPList []] \<and>
   side_effects example_pkg
     (snd (PkgCommit (example_commit (Committed example_result)) (@) example_os 0 example_pkg)) =
     [SourceReleaseAll_called,
      Sys_stat ''/mnt/etc/products.d/baseproduct'',
      Sys_symlink ''openSUSE.prod'' ''/mnt/etc/products.d/baseproduct'']"
proof -
  let ?p = "example_pkg\<lparr>pf_last_reported_repo := - 1, pf_last_reported_mediumnr := 1\<rparr>"
  have m: "\<not> (word_of_int 0 :: 32 word) <s 0"
    by simp
  have c: "example_commit outcome (word_of_int 0) ?p = (outcome, ?p)" for outcome
    by (simp add: example_commit_def)
  have f: "find_product_file [''/etc/SuSE-release'', ''/etc/products.d/openSUSE.prod'']
             = ''openSUSE.prod''"
    by (simp add: product_file_regex_def)
  have l: "snd (CreateBaseProductSymlink (@) example_os (SourceReleaseAll ?p)) =
     ?p\<lparr>effects :=
         [SourceReleaseAll_called,
          Logged y2milestone ''Creating symlink for the base product...'' [],
          Logged y2milestone ''Found reference package for the base product: %s-%s''
            [YCPString ''openSUSE-release'', YCPString ''11.1''],
          Logged y2milestone ''The reference package has %zd files'' [YCPInteger 2],
          Logged y2milestone ''Found product file %s'' [YCPString ''openSUSE.prod''],
          Sys_stat ''/mnt/etc/products.d/baseproduct'',
          Logged y2debug ''Link %s does not exist'' [YCPString ''/mnt/etc/products.d/baseproduct''],
          Sys_symlink ''openSUSE.prod'' ''/mnt/etc/products.d/baseproduct'',
          Logged y2milestone ''Symlink %s -> %s has been created''
            [YCPString ''/mnt/etc/products.d/baseproduct'', YCPString ''openSUSE.prod'']]\<rparr>"
    by (simp add: CreateBaseProductSymlink_def SourceReleaseAll_def effect_def example_pkg_def
          example_os_def product_file_regex_def Let_def)
  have e: "effects example_pkg = []" "effects ?p = []"
    by (simp_all add: example_pkg_def)
  have a: ?thesis
    if "fst (PkgCommit (example_commit TargetAbortedException) (@) example_os 0 example_pkg)
          = YCPList [YCPInteger (- 1)]"
       "fst (PkgCommit (example_commit (ZyppException ''rpm failed'')) (@) example_os 0 example_pkg)
          = YCPVoid"
       "PkgCommit (example_commit (Committed example_result)) (@) example_os 0 example_pkg =
          (YCPList [YCPInteger (sint (cr_result example_result)),
                    YCPList (map (\<lambda>it. YCPString (ci_name it)) (cr_errors example_result)),
                    YCPList (map remaining_map (cr_remaining example_result)),
                    YCPList (map (\<lambda>it. YCPString (ci_name it)) (cr_srcremaining example_result))],
           snd (CreateBaseProductSymlink (@) example_os (SourceReleaseAll ?p)))"
    using that m
    apply (simp only: l)
    apply (simp add: PkgCommit_def example_commit_def effect_def side_effects_def
             is_side_effect_def e example_result_def remaining_map_def)
    done
  from PkgCommit_outcomes [where media = 0 and p = example_pkg and Pathname_cat = "(@)"
         and os = example_os and commit = "example_commit TargetAbortedException"
         and outcome = TargetAbortedException, OF m c]
       PkgCommit_outcomes [where media = 0 and p = example_pkg and Pathname_cat = "(@)"
         and os = example_os and commit = "example_commit (ZyppException ''rpm failed'')"
         and outcome = "ZyppException ''rpm failed''", OF m c]
       PkgCommit_outcomes [where media = 0 and p = example_pkg and Pathname_cat = "(@)"
         and os = example_os and commit = "example_commit (Committed example_result)"
         and outcome = "Committed example_result", OF m c]
  show ?thesis
    by (intro a) (auto simp add: case_prod_beta prod_eq_iff)
qed

end
